theory Spec2Isabelle
  imports Complex_Main
begin

section \<open>Values exchanged with the metadata service and the store\<close>

text \<open>
  The metadata client returns the decoded JSON body of a response (a Python \<open>dict\<close>).
  A dict is kept as an association list in insertion order; a lookup takes the entry of
  the key. \<open>dict_get\<close> is \<open>dict.get(key)\<close>: a missing key gives \<open>None\<close>, here
  \<open>JNull\<close>. Numbers are kept as integers: the fields the polling code reads are
  strings and objects.
\<close>

datatype json =
    JNull
  | JBool bool
  | JNum int
  | JStr string
  | JArr "json list"
  | JObj "(string \<times> json) list"

type_synonym dict = "(string \<times> json) list"

text \<open>Python's truth value of a decoded JSON value (\<open>if x\<close>, \<open>not x\<close>).\<close>

fun truthy :: "json \<Rightarrow> bool" where
  "truthy JNull = False"
| "truthy (JBool b) = b"
| "truthy (JNum n) = (n \<noteq> 0)"
| "truthy (JStr s) = (s \<noteq> [])"
| "truthy (JArr xs) = (xs \<noteq> [])"
| "truthy (JObj kvs) = (kvs \<noteq> [])"

definition dict_get :: "dict \<Rightarrow> string \<Rightarrow> json" where
  "dict_get d k = (case map_of d k of None \<Rightarrow> JNull | Some v \<Rightarrow> v)"

text \<open>The exceptions the modelled code can raise.\<close>

datatype error =
    ValueError
  | TypeError
  | AttributeError
  | KeyError
  | RemoteError
  | StoreError
  | SendError

text \<open>\<open>x.get(key)\<close> on a decoded value: only a dict has the method.\<close>

fun json_get :: "json \<Rightarrow> string \<Rightarrow> error + json" where
  "json_get (JObj kvs) k = Inr (dict_get kvs k)"
| "json_get _ k = Inl AttributeError"

section \<open>Dates\<close>

text \<open>
  A naive \<open>datetime\<close> is the number of microseconds since 0001-01-01T00:00:00, and a
  \<open>timedelta\<close> is a number of microseconds. \<open>timedelta.days\<close> is the floor of the
  duration in days (the normalised form keeps seconds and microseconds non-negative),
  which is what \<open>div\<close> on \<open>int\<close> computes.
\<close>

type_synonym datetime = int
type_synonym timedelta = int

definition us_per_day :: int where
  "us_per_day = 86400000000"

definition td_days :: "timedelta \<Rightarrow> int" where
  "td_days td = td div us_per_day"

definition timedelta_hours :: "int \<Rightarrow> timedelta" where
  "timedelta_hours h = h * 3600000000"

definition is_leap :: "int \<Rightarrow> bool" where
  "is_leap y = (y mod 4 = 0 \<and> (y mod 100 \<noteq> 0 \<or> y mod 400 = 0))"

definition days_in_month :: "int \<Rightarrow> int \<Rightarrow> int" where
  "days_in_month y m =
     (if m = 2 then (if is_leap y then 29 else 28)
      else if m = 4 \<or> m = 6 \<or> m = 9 \<or> m = 11 then 30 else 31)"

definition days_before_year :: "int \<Rightarrow> int" where
  "days_before_year year =
     (let y = year - 1 in y * 365 + y div 4 - y div 100 + y div 400)"

definition days_before_month :: "int \<Rightarrow> int \<Rightarrow> int" where
  "days_before_month y m =
     [0, 0, 31, 59, 90, 120, 151, 181, 212, 243, 273, 304, 334] ! nat m
       + (if m > 2 \<and> is_leap y then 1 else 0)"

definition ymd2ord :: "int \<Rightarrow> int \<Rightarrow> int \<Rightarrow> int" where
  "ymd2ord y m d = days_before_year y + days_before_month y m + d"

text \<open>\<open>datetime(y, m, d, hh, mm, ss)\<close> for a valid calendar date and time of day.\<close>

definition mk_datetime :: "int \<Rightarrow> int \<Rightarrow> int \<Rightarrow> int \<Rightarrow> int \<Rightarrow> int \<Rightarrow> datetime" where
  "mk_datetime y m d hh mm ss =
     (ymd2ord y m d - 1) * us_per_day + ((hh * 60 + mm) * 60 + ss) * 1000000"

subsection \<open>Parsing with the format %Y-%m-%d\<close>

text \<open>
  \<open>datetime.strptime(s, '%Y-%m-%d')\<close> on an ASCII string. The format compiles to the
  regular expression
  \<^verbatim>\<open>(?P<Y>\d\d\d\d)-(?P<m>1[0-2]|0[1-9]|[1-9])-(?P<d>3[0-1]|[1-2]\d|0[1-9]|[1-9]| [1-9])\<close>
  matched at the start of the string; text left after the match, a string that does not
  match and a day the month does not have (or the year 0) all raise \<open>ValueError\<close>.
  A later alternative of the month never rescues a match: it reads one character less,
  and the character it leaves is a digit where the pattern wants the hyphen.
\<close>

definition digit_val :: "char \<Rightarrow> int option" where
  "digit_val c = map_of (zip ''0123456789'' [0, 1, 2, 3, 4, 5, 6, 7, 8, 9]) c"

definition digit_in :: "char \<Rightarrow> int \<Rightarrow> int \<Rightarrow> bool" where
  "digit_in c lo hi = (case digit_val c of None \<Rightarrow> False | Some v \<Rightarrow> lo \<le> v \<and> v \<le> hi)"

definition dv :: "char \<Rightarrow> int" where
  "dv c = (case digit_val c of None \<Rightarrow> 0 | Some v \<Rightarrow> v)"

fun parse_Y :: "string \<Rightarrow> (int \<times> string) option" where
  "parse_Y (a # b # c # d # rest) =
     (if digit_in a 0 9 \<and> digit_in b 0 9 \<and> digit_in c 0 9 \<and> digit_in d 0 9
      then Some (1000 * dv a + 100 * dv b + 10 * dv c + dv d, rest) else None)"
| "parse_Y _ = None"

fun parse_m :: "string \<Rightarrow> (int \<times> string) option" where
  "parse_m [] = None"
| "parse_m [a] = (if digit_in a 1 9 then Some (dv a, []) else None)"
| "parse_m (a # b # rest) =
     (if a = CHR ''1'' \<and> digit_in b 0 2 then Some (10 + dv b, rest)
      else if a = CHR ''0'' \<and> digit_in b 1 9 then Some (dv b, rest)
      else if digit_in a 1 9 then Some (dv a, b # rest)
      else None)"

fun parse_d :: "string \<Rightarrow> (int \<times> string) option" where
  "parse_d [] = None"
| "parse_d [a] = (if digit_in a 1 9 then Some (dv a, []) else None)"
| "parse_d (a # b # rest) =
     (if a = CHR ''3'' \<and> digit_in b 0 1 then Some (30 + dv b, rest)
      else if digit_in a 1 2 \<and> digit_in b 0 9 then Some (10 * dv a + dv b, rest)
      else if a = CHR ''0'' \<and> digit_in b 1 9 then Some (dv b, rest)
      else if digit_in a 1 9 then Some (dv a, b # rest)
      else if a = CHR '' '' \<and> digit_in b 1 9 then Some (dv b, rest)
      else None)"

fun expect_hyphen :: "string \<Rightarrow> string option" where
  "expect_hyphen (c # rest) = (if c = CHR ''-'' then Some rest else None)"
| "expect_hyphen [] = None"

definition strptime_ymd :: "string \<Rightarrow> error + datetime" where
  "strptime_ymd s =
     (case parse_Y s of
        None \<Rightarrow> Inl ValueError
      | Some (y, r1) \<Rightarrow>
     (case expect_hyphen r1 of
        None \<Rightarrow> Inl ValueError
      | Some r2 \<Rightarrow>
     (case parse_m r2 of
        None \<Rightarrow> Inl ValueError
      | Some (m, r3) \<Rightarrow>
     (case expect_hyphen r3 of
        None \<Rightarrow> Inl ValueError
      | Some r4 \<Rightarrow>
     (case parse_d r4 of
        None \<Rightarrow> Inl ValueError
      | Some (d, r5) \<Rightarrow>
          if r5 \<noteq> [] then Inl ValueError
          else if y < 1 \<or> days_in_month y m < d then Inl ValueError
          else Inr (mk_datetime y m d 0 0 0))))))"

text \<open>The first argument of \<open>strptime\<close> must be a \<open>str\<close>.\<close>

fun strptime :: "json \<Rightarrow> error + datetime" where
  "strptime (JStr s) = strptime_ymd s"
| "strptime _ = Inl TypeError"

section \<open>Configuration and stored rows\<close>

text \<open>The two settings of \<open>Config\<close> the polling code reads.\<close>

record config =
  UPDATE_INTERVAL_HOURS :: int
  NOTIFICATION_PING_ROLE :: bool

definition default_config :: config where
  "default_config = \<lparr>UPDATE_INTERVAL_HOURS = 6, NOTIFICATION_PING_ROLE = True\<rparr>"

text \<open>A row of the table \<open>subscriptions\<close>; \<open>sub_id\<close> is the column \<open>id\<close>.\<close>

record subscription =
  sub_id :: int
  guild_id :: int
  tmdb_id :: int
  media_type :: string
  title :: string
  poster_path :: "string option"
  last_checked :: "datetime option"
  notify_on_release :: bool
  notify_on_update :: bool

section \<open>The update evaluator\<close>

text \<open>
  \<open>AutoUpdate._check_for_updates\<close>. The argument \<open>utcnow\<close> is the value of the one
  \<open>datetime.utcnow()\<close> call the taken branch makes. A raised exception is \<open>Inl\<close>; the
  returned notification dict (or \<open>None\<close>) is \<open>Inr\<close>.

  The test \<open>0 <= days <= (UPDATE_INTERVAL_HOURS / 24)\<close> compares an \<open>int\<close> with the
  quotient of two \<open>int\<close>s. Python compares the two exactly, and for every day count a
  \<open>timedelta\<close> can hold the rounding of the quotient does not cross an integer, so the
  test is \<open>24 * days \<le> UPDATE_INTERVAL_HOURS\<close>.
\<close>

definition within_interval :: "config \<Rightarrow> int \<Rightarrow> bool" where
  "within_interval cfg days = (0 \<le> days \<and> 24 * days \<le> UPDATE_INTERVAL_HOURS cfg)"

definition check_for_updates :: "config \<Rightarrow> subscription \<Rightarrow> dict \<Rightarrow> datetime \<Rightarrow> error + dict option" where
  "check_for_updates cfg subscription details utcnow =
     (if media_type subscription = ''movie'' then
        (let release_date = dict_get details ''release_date'';
             status = dict_get details ''status''
         in if truthy release_date \<and> notify_on_release subscription then
              (case strptime release_date of
                 Inl e \<Rightarrow> Inl e
               | Inr release_dt \<Rightarrow>
                   if status = JStr ''Released'' then
                     (let days_since_release = td_days (utcnow - release_dt)
                      in if within_interval cfg days_since_release
                         then Inr (Some [(''type'', JStr ''release''),
                                         (''date'', release_date),
                                         (''title'', dict_get details ''title'')])
                         else Inr None)
                   else if status = JStr ''Post Production'' \<or> status = JStr ''In Production'' then
                     (let days_until_release = td_days (release_dt - utcnow)
                      in if 0 \<le> days_until_release \<and> days_until_release \<le> 7
                         then Inr (Some [(''type'', JStr ''upcoming''),
                                         (''date'', release_date),
                                         (''title'', dict_get details ''title'')])
                         else Inr None)
                   else Inr None)
            else Inr None)
      else if media_type subscription = ''tv'' then
        (let last_air_date = dict_get details ''last_air_date'';
             next_air_date = dict_get details ''next_episode_to_air''
         in if truthy next_air_date \<and> notify_on_update subscription then
              (case json_get next_air_date ''air_date'' of
                 Inl e \<Rightarrow> Inl e
               | Inr air_date \<Rightarrow>
                   if truthy air_date then
                     (case strptime air_date of
                        Inl e \<Rightarrow> Inl e
                      | Inr air_dt \<Rightarrow>
                          (let days_until_air = td_days (air_dt - utcnow)
                           in if days_until_air = 1
                              then Inr (Some [(''type'', JStr ''new_episode''),
                                              (''date'', air_date),
                                              (''title'', dict_get details ''name''),
                                              (''episode'', next_air_date)])
                              else Inr None))
                   else Inr None)
            else if truthy last_air_date \<and> notify_on_update subscription then
              (case strptime last_air_date of
                 Inl e \<Rightarrow> Inl e
               | Inr last_dt \<Rightarrow>
                   (let days_since_air = td_days (utcnow - last_dt)
                    in if within_interval cfg days_since_air
                       then Inr (Some [(''type'', JStr ''episode_aired''),
                                       (''date'', last_air_date),
                                       (''title'', dict_get details ''name'')])
                       else Inr None))
            else Inr None)
      else Inr None)"

text \<open>
  The window as the specification words it: \<open>0 \<le> days \<le> ceil(update_interval_hours / 24)\<close>.
\<close>

definition spec_window :: "config \<Rightarrow> int \<Rightarrow> bool" where
  "spec_window cfg days =
     (0 \<le> days \<and> days \<le> \<lceil>real_of_int (UPDATE_INTERVAL_HOURS cfg) / 24\<rceil>)"

text \<open>Two subscriptions and two snapshots used as concrete inputs below.\<close>

definition movie_sub :: subscription where
  "movie_sub = \<lparr>sub_id = 1, guild_id = 10, tmdb_id = 603, media_type = ''movie'',
     title = ''The Matrix'', poster_path = None, last_checked = None,
     notify_on_release = True, notify_on_update = True\<rparr>"

definition tv_sub :: subscription where
  "tv_sub = \<lparr>sub_id = 2, guild_id = 10, tmdb_id = 1399, media_type = ''tv'',
     title = ''Game of Thrones'', poster_path = None, last_checked = None,
     notify_on_release = True, notify_on_update = True\<rparr>"

definition movie_details :: dict where
  "movie_details = [(''title'', JStr ''The Matrix''), (''status'', JStr ''Released''),
     (''release_date'', JStr ''2024-01-15'')]"

definition tv_details :: dict where
  "tv_details = [(''name'', JStr ''Game of Thrones''), (''last_air_date'', JStr ''2024-01-15''),
     (''next_episode_to_air'', JObj [(''air_date'', JStr ''2024-01-22''),
        (''season_number'', JNum 1), (''episode_number'', JNum 2)])]"

text \<open>
  A result of the evaluator carries an outcome of a kind when it is a notification whose
  entry \<open>type\<close> is that kind.
\<close>

definition emits :: "string \<Rightarrow> error + dict option \<Rightarrow> bool" where
  "emits kind r = (case r of Inr (Some n) \<Rightarrow> dict_get n ''type'' = JStr kind | _ \<Rightarrow> False)"

section \<open>The hosting runtime and the notification dispatcher\<close>

text \<open>A row of the table \<open>guilds\<close>; \<open>g_id\<close> is the column \<open>id\<close>.\<close>

record guild_data =
  g_id :: int
  notification_channel_id :: "int option"
  notification_role_id :: "int option"
  auto_update_enabled :: "bool option"

text \<open>
  A \<open>discord.Guild\<close> as the dispatcher uses it: its id, its name, its system channel,
  and the lookups of a channel and of a role (the role by its mention text).
\<close>

datatype channel = Channel int

record discord_guild =
  dg_id :: int
  dg_name :: string
  system_channel :: "channel option"
  get_channel :: "int \<Rightarrow> channel option"
  get_role :: "int \<Rightarrow> string option"

text \<open>
  \<open>format_date\<close> of \<open>utils/helpers.py\<close>: a falsy argument gives "N/A", a date that
  parses is rendered, a string that does not parse is returned as it is (the
  \<open>ValueError\<close> is caught there); an argument that is no string raises \<open>TypeError\<close>.
\<close>

datatype date_text = NA | Rendered datetime | Verbatim string

fun format_date :: "json \<Rightarrow> error + date_text" where
  "format_date (JStr s) =
     (if s = [] then Inr NA
      else case strptime_ymd s of Inl e \<Rightarrow> Inr (Verbatim s) | Inr d \<Rightarrow> Inr (Rendered d))"
| "format_date v = (if truthy v then Inl TypeError else Inr NA)"

text \<open>
  The embed, by what goes into it: the template (the notification's type), the media type
  its emoji and link are built from, the title, the formatted date, for a new episode its
  season number, episode number and name, the thumbnail and the catalogue id of the link.
  The rendering of these into the texts of the embed, its colour, footer and timestamp
  are left out.
\<close>

record embed =
  template :: json
  e_media_type :: string
  e_title :: json
  e_date :: date_text
  e_episode :: "(json \<times> json \<times> json) option"
  thumbnail :: "string option"
  link_id :: int

text \<open>\<open>d[key]\<close>: a missing key raises \<open>KeyError\<close>.\<close>

definition dict_item :: "dict \<Rightarrow> string \<Rightarrow> error + json" where
  "dict_item d k = (case map_of d k of None \<Rightarrow> Inl KeyError | Some v \<Rightarrow> Inr v)"

text \<open>
  Lines 188 to 230 of \<open>_send_notification\<close>: the embed of a notification, \<open>None\<close> for a
  type with no template (the function returns there), an exception as \<open>Inl\<close>.
\<close>

definition notification_embed :: "subscription \<Rightarrow> dict \<Rightarrow> error + embed option" where
  "notification_embed subscription notification =
     (case dict_item notification ''title'' of
        Inl e \<Rightarrow> Inl e
      | Inr ttl \<Rightarrow>
     (case dict_item notification ''type'' of
        Inl e \<Rightarrow> Inl e
      | Inr ty \<Rightarrow>
          (let base = \<lparr>template = ty, e_media_type = media_type subscription, e_title = ttl,
                       e_date = NA, e_episode = None,
                       thumbnail = (case poster_path subscription of
                                      None \<Rightarrow> None
                                    | Some p \<Rightarrow> if p = [] then None else Some p),
                       link_id = tmdb_id subscription\<rparr>
           in if ty = JStr ''release'' \<or> ty = JStr ''upcoming'' \<or> ty = JStr ''episode_aired'' then
                (case dict_item notification ''date'' of
                   Inl e \<Rightarrow> Inl e
                 | Inr dt \<Rightarrow>
                (case format_date dt of
                   Inl e \<Rightarrow> Inl e
                 | Inr txt \<Rightarrow> Inr (Some (base\<lparr>e_date := txt\<rparr>))))
              else if ty = JStr ''new_episode'' then
                (case dict_item notification ''episode'' of
                   Inl e \<Rightarrow> Inl e
                 | Inr episode_info \<Rightarrow>
                (case json_get episode_info ''season_number'' of
                   Inl e \<Rightarrow> Inl e
                 | Inr season \<Rightarrow>
                (case json_get episode_info ''episode_number'' of
                   Inl e \<Rightarrow> Inl e
                 | Inr number \<Rightarrow>
                (case json_get episode_info ''name'' of
                   Inl e \<Rightarrow> Inl e
                 | Inr ename \<Rightarrow>
                (case dict_item notification ''date'' of
                   Inl e \<Rightarrow> Inl e
                 | Inr dt \<Rightarrow>
                (case format_date dt of
                   Inl e \<Rightarrow> Inl e
                 | Inr txt \<Rightarrow>
                     Inr (Some (base\<lparr>e_date := txt,
                                     e_episode := Some (season, number, ename)\<rparr>))))))))
              else Inr None)))"

text \<open>What a poll cycle does that can be seen from outside, in the order it does it.\<close>

datatype log_record =
    Starting
  | Checking nat string
  | SubscriptionError int error
  | GuildError int error
  | Complete nat
  | TaskError error
  | NoChannel int
  | Sent json int
  | SendFailed error

datatype event =
    LogInfo log_record
  | LogWarning log_record
  | LogError log_record
  | LoadSubscriptions int
  | Fetch subscription
  | Evaluate subscription
  | Dispatch subscription
  | Send channel "string option" embed
  | SetLastChecked subscription datetime
  | Sleep

text \<open>
  The world outside the cog, for one poll cycle: what each call to a collaborator
  answers. The calls made for a subscription are keyed by the row's id, those made for a
  guild by the guild's id. \<open>Some e\<close> in an \<open>error option\<close> is the call raising \<open>e\<close>.
\<close>

datatype call_site = StalenessCheck | Evaluation | WriteBack

record world =
  select_guilds :: "error option"
  resolve_guild :: "int \<Rightarrow> discord_guild option"
  load_subscriptions :: "int \<Rightarrow> error option"
  get_movie_details :: "int \<Rightarrow> int \<Rightarrow> error + dict"
  get_tv_details :: "int \<Rightarrow> int \<Rightarrow> error + dict"
  utcnow :: "call_site \<Rightarrow> int \<Rightarrow> datetime"
  channel_send :: "int \<Rightarrow> channel \<Rightarrow> error option"
  write_last_checked :: "int \<Rightarrow> error option"

text \<open>
  \<open>AutoUpdate._send_notification\<close>, as the events it adds. Every exception of its body
  is caught by its own \<open>except Exception\<close> and logged; it never raises.
\<close>

definition send_notification ::
  "world \<Rightarrow> config \<Rightarrow> discord_guild \<Rightarrow> guild_data \<Rightarrow> subscription \<Rightarrow> dict \<Rightarrow> event list" where
  "send_notification w cfg guild gd subscription notification =
     (let channel =
            (case notification_channel_id gd of
               None \<Rightarrow> system_channel guild
             | Some channel_id \<Rightarrow>
                 if channel_id = 0 then system_channel guild
                 else get_channel guild channel_id)
      in case channel of
           None \<Rightarrow> [LogWarning (NoChannel (dg_id guild))]
         | Some ch \<Rightarrow>
             (case notification_embed subscription notification of
                Inl e \<Rightarrow> [LogError (SendFailed e)]
              | Inr None \<Rightarrow> []
              | Inr (Some em) \<Rightarrow>
                  (let content =
                         (case notification_role_id gd of
                            None \<Rightarrow> None
                          | Some role_id \<Rightarrow>
                              if role_id \<noteq> 0 \<and> NOTIFICATION_PING_ROLE cfg
                              then get_role guild role_id else None)
                   in case channel_send w (sub_id subscription) ch of
                        Some e \<Rightarrow> [Send ch content em, LogError (SendFailed e)]
                      | None \<Rightarrow> [Send ch content em,
                                 LogInfo (Sent (e_title em) (dg_id guild))])))"

text \<open>The channels the \<open>send\<close> calls of a list of events go to, in order.\<close>

fun sends_to :: "event list \<Rightarrow> channel list" where
  "sends_to [] = []"
| "sends_to (Send ch content em # evs) = ch # sends_to evs"
| "sends_to (ev # evs) = sends_to evs"

section \<open>The poll loop\<close>

text \<open>
  The state a cycle works on: the table \<open>subscriptions\<close> of the store, the events so
  far, and the counter \<open>total_updates\<close>.
\<close>

record poll_state =
  table :: "subscription list"
  trace :: "event list"
  total_updates :: nat

definition emit :: "event list \<Rightarrow> poll_state \<Rightarrow> poll_state" where
  "emit evs st = st\<lparr>trace := trace st @ evs\<rparr>"

text \<open>\<open>Database.get_subscriptions\<close>: the rows of a guild, in table order.\<close>

definition get_subscriptions :: "subscription list \<Rightarrow> int \<Rightarrow> subscription list" where
  "get_subscriptions tbl gid = filter (\<lambda>s. guild_id s = gid) tbl"

text \<open>\<open>update(Subscription).where(Subscription.id == sid).values(last_checked=t)\<close>.\<close>

definition set_last_checked :: "int \<Rightarrow> datetime \<Rightarrow> subscription list \<Rightarrow> subscription list" where
  "set_last_checked sid t tbl =
     map (\<lambda>s. if sub_id s = sid then s\<lparr>last_checked := Some t\<rparr> else s) tbl"

text \<open>
  The staleness test of lines 65 to 68: \<open>last_checked\<close> is set and less than the
  interval has passed since.
\<close>

definition checked_recently :: "world \<Rightarrow> config \<Rightarrow> subscription \<Rightarrow> bool" where
  "checked_recently w cfg subscription =
     (case last_checked subscription of
        None \<Rightarrow> False
      | Some t \<Rightarrow>
          utcnow w StalenessCheck (sub_id subscription) - t
            < timedelta_hours (UPDATE_INTERVAL_HOURS cfg))"

definition fetch_details :: "world \<Rightarrow> subscription \<Rightarrow> error + dict" where
  "fetch_details w subscription =
     (if media_type subscription = ''movie''
      then get_movie_details w (sub_id subscription) (tmdb_id subscription)
      else get_tv_details w (sub_id subscription) (tmdb_id subscription))"

text \<open>
  The body of the inner \<open>try\<close> (lines 64 to 94) for one subscription: the state where it
  stopped, and the exception it raised there, if any.
\<close>

definition check_subscription ::
  "world \<Rightarrow> config \<Rightarrow> discord_guild \<Rightarrow> guild_data \<Rightarrow> subscription \<Rightarrow> poll_state
     \<Rightarrow> error option \<times> poll_state" where
  "check_subscription w cfg guild gd subscription st =
     (if checked_recently w cfg subscription then (None, st)
      else
        (let st1 = emit [Fetch subscription] st
         in case fetch_details w subscription of
              Inl e \<Rightarrow> (Some e, st1)
            | Inr details \<Rightarrow>
                (let st2 = emit [Evaluate subscription] st1
                 in case check_for_updates cfg subscription details
                           (utcnow w Evaluation (sub_id subscription)) of
                      Inl e \<Rightarrow> (Some e, st2)
                    | Inr notification \<Rightarrow>
                        (let st3 =
                               (case notification of
                                  None \<Rightarrow> st2
                                | Some n \<Rightarrow>
                                    if n = [] then st2
                                    else (emit (Dispatch subscription
                                                  # send_notification w cfg guild gd subscription n) st2)
                                           \<lparr>total_updates := total_updates st2 + 1\<rparr>);
                             now = utcnow w WriteBack (sub_id subscription);
                             st4 = emit [SetLastChecked subscription now] st3
                         in case write_last_checked w (sub_id subscription) of
                              Some e \<Rightarrow> (Some e, st4)
                            | None \<Rightarrow>
                                (None, emit [Sleep]
                                   (st4\<lparr>table := set_last_checked (sub_id subscription) now
                                                    (table st4)\<rparr>))))))"

text \<open>One iteration of the inner loop: the body under its \<open>except Exception\<close>.\<close>

definition handle_subscription ::
  "world \<Rightarrow> config \<Rightarrow> discord_guild \<Rightarrow> guild_data \<Rightarrow> subscription \<Rightarrow> poll_state \<Rightarrow> poll_state" where
  "handle_subscription w cfg guild gd subscription st =
     (case check_subscription w cfg guild gd subscription st of
        (None, st') \<Rightarrow> st'
      | (Some e, st') \<Rightarrow> emit [LogError (SubscriptionError (sub_id subscription) e)] st')"

fun for_subscriptions ::
  "world \<Rightarrow> config \<Rightarrow> discord_guild \<Rightarrow> guild_data \<Rightarrow> subscription list \<Rightarrow> poll_state \<Rightarrow> poll_state" where
  "for_subscriptions w cfg guild gd [] st = st"
| "for_subscriptions w cfg guild gd (subscription # rest) st =
     for_subscriptions w cfg guild gd rest (handle_subscription w cfg guild gd subscription st)"

text \<open>The body of the outer \<open>try\<close> (lines 51 to 98) for one guild row.\<close>

definition check_guild :: "world \<Rightarrow> config \<Rightarrow> guild_data \<Rightarrow> poll_state \<Rightarrow> error option \<times> poll_state" where
  "check_guild w cfg gd st =
     (case resolve_guild w (g_id gd) of
        None \<Rightarrow> (None, st)
      | Some guild \<Rightarrow>
          (let st1 = emit [LoadSubscriptions (g_id gd)] st
           in case load_subscriptions w (g_id gd) of
                Some e \<Rightarrow> (Some e, st1)
              | None \<Rightarrow>
                  (let subs = get_subscriptions (table st1) (g_id gd)
                   in if subs = [] then (None, st1)
                      else (None,
                            for_subscriptions w cfg guild gd subs
                              (emit [LogInfo (Checking (length subs) (dg_name guild))] st1)))))"

definition handle_guild :: "world \<Rightarrow> config \<Rightarrow> guild_data \<Rightarrow> poll_state \<Rightarrow> poll_state" where
  "handle_guild w cfg gd st =
     (case check_guild w cfg gd st of
        (None, st') \<Rightarrow> st'
      | (Some e, st') \<Rightarrow> emit [LogError (GuildError (g_id gd) e)] st')"

fun for_guilds :: "world \<Rightarrow> config \<Rightarrow> guild_data list \<Rightarrow> poll_state \<Rightarrow> poll_state" where
  "for_guilds w cfg [] st = st"
| "for_guilds w cfg (gd # rest) st = for_guilds w cfg rest (handle_guild w cfg gd st)"

text \<open>
  The store a cycle starts from, and the body of the outermost \<open>try\<close> of
  \<open>update_check\<close> (lines 35 to 104).
\<close>

record store =
  guilds :: "guild_data list"
  subscriptions :: "subscription list"

definition cycle_body :: "world \<Rightarrow> config \<Rightarrow> store \<Rightarrow> error option \<times> poll_state" where
  "cycle_body w cfg db =
     (let st0 = \<lparr>table = subscriptions db, trace = [LogInfo Starting], total_updates = 0\<rparr>
      in case select_guilds w of
           Some e \<Rightarrow> (Some e, st0)
         | None \<Rightarrow>
             (let enabled = filter (\<lambda>g. auto_update_enabled g = Some True) (guilds db);
                  st1 = for_guilds w cfg enabled st0
              in (None, emit [LogInfo (Complete (total_updates st1))] st1)))"

text \<open>One run of the task \<open>update_check\<close>; it returns to the scheduler in every case.\<close>

definition update_check :: "world \<Rightarrow> config \<Rightarrow> store \<Rightarrow> poll_state" where
  "update_check w cfg db =
     (case cycle_body w cfg db of
        (None, st) \<Rightarrow> st
      | (Some e, st) \<Rightarrow> emit [LogError (TaskError e)] st)"

text \<open>An event made on behalf of a guild: for a row of it, or the loading of its rows.\<close>

fun touches :: "int \<Rightarrow> event \<Rightarrow> bool" where
  "touches gid (LoadSubscriptions g) = (g = gid)"
| "touches gid (Fetch s) = (guild_id s = gid)"
| "touches gid (Evaluate s) = (guild_id s = gid)"
| "touches gid (Dispatch s) = (guild_id s = gid)"
| "touches gid (SetLastChecked s t) = (guild_id s = gid)"
| "touches gid ev = False"

section \<open>Concrete inputs\<close>

text \<open>
  A store with four guild rows and five subscriptions, the guild the runtime resolves
  them to, and a world for one cycle: the guild 40 fails to load its subscriptions, the
  guild 20 has auto-update off, the guild 30 does not resolve; the movie 603 is fetched,
  every series fetch fails, every send fails, every write succeeds, and the clock stands
  at 2024-01-15 09:30.
\<close>

definition cinema :: discord_guild where
  "cinema = \<lparr>dg_id = 10, dg_name = ''Cinema'', system_channel = Some (Channel 5),
     get_channel = (\<lambda>c. if c = 7 then Some (Channel 7) else None),
     get_role = (\<lambda>r. if r = 3 then Some ''@film-fans'' else None)\<rparr>"

definition cinema_row :: guild_data where
  "cinema_row = \<lparr>g_id = 10, notification_channel_id = Some 7, notification_role_id = Some 3,
     auto_update_enabled = Some True\<rparr>"

definition lounge_row :: guild_data where
  "lounge_row = \<lparr>g_id = 20, notification_channel_id = None, notification_role_id = None,
     auto_update_enabled = Some False\<rparr>"

definition attic_row :: guild_data where
  "attic_row = \<lparr>g_id = 30, notification_channel_id = None, notification_role_id = None,
     auto_update_enabled = Some True\<rparr>"

definition archive_row :: guild_data where
  "archive_row = \<lparr>g_id = 40, notification_channel_id = None, notification_role_id = None,
     auto_update_enabled = Some True\<rparr>"

definition lounge_sub :: subscription where
  "lounge_sub = \<lparr>sub_id = 3, guild_id = 20, tmdb_id = 603, media_type = ''movie'',
     title = ''The Matrix'', poster_path = None, last_checked = None,
     notify_on_release = True, notify_on_update = True\<rparr>"

definition attic_sub :: subscription where
  "attic_sub = \<lparr>sub_id = 4, guild_id = 30, tmdb_id = 603, media_type = ''movie'',
     title = ''The Matrix'', poster_path = None, last_checked = None,
     notify_on_release = True, notify_on_update = True\<rparr>"

definition checked_sub :: subscription where
  "checked_sub = \<lparr>sub_id = 5, guild_id = 10, tmdb_id = 603, media_type = ''movie'',
     title = ''The Matrix'', poster_path = None,
     last_checked = Some (mk_datetime 2024 1 15 9 30 0 - timedelta_hours 2),
     notify_on_release = True, notify_on_update = True\<rparr>"

definition test_world :: world where
  "test_world = \<lparr>select_guilds = None,
     resolve_guild = (\<lambda>g. if g = 10 \<or> g = 20 \<or> g = 40 then Some (cinema\<lparr>dg_id := g\<rparr>) else None),
     load_subscriptions = (\<lambda>g. if g = 40 then Some StoreError else None),
     get_movie_details = (\<lambda>sid tid. if tid = 603 then Inr movie_details else Inl RemoteError),
     get_tv_details = (\<lambda>sid tid. Inl RemoteError),
     utcnow = (\<lambda>site sid. mk_datetime 2024 1 15 9 30 0),
     channel_send = (\<lambda>sid ch. Some SendError),
     write_last_checked = (\<lambda>sid. None)\<rparr>"

definition failing_world :: world where
  "failing_world = test_world\<lparr>select_guilds := Some StoreError\<rparr>"

definition test_store :: store where
  "test_store = \<lparr>guilds = [archive_row, cinema_row, lounge_row, attic_row],
     subscriptions = [tv_sub, movie_sub, lounge_sub, attic_sub, checked_sub]\<rparr>"

definition start_state :: poll_state where
  "start_state = \<lparr>table = subscriptions test_store, trace = [LogInfo Starting],
     total_updates = 0\<rparr>"

definition release_notification :: dict where
  "release_notification = [(''type'', JStr ''release''), (''date'', JStr ''2024-01-15''),
     (''title'', JStr ''The Matrix'')]"

definition release_message :: embed where
  "release_message = \<lparr>template = JStr ''release'', e_media_type = ''movie'',
     e_title = JStr ''The Matrix'', e_date = Rendered (mk_datetime 2024 1 15 0 0 0),
     e_episode = None, thumbnail = None, link_id = 603\<rparr>"

section \<open>What a cycle leaves alone\<close>

text \<open>
  The primary key and the guild of every row, in table order, and the relation between
  two states of a cycle that did nothing on behalf of a guild: the events added do not
  touch it, no row changed its key or guild, and the guild's rows are the same.
\<close>

definition row_keys :: "subscription list \<Rightarrow> (int \<times> int) list" where
  "row_keys tbl = map (\<lambda>s. (sub_id s, guild_id s)) tbl"

definition untouched :: "int \<Rightarrow> poll_state \<Rightarrow> poll_state \<Rightarrow> bool" where
  "untouched G st st' =
     ((\<exists>evs. trace st' = trace st @ evs \<and> (\<forall>ev \<in> set evs. \<not> touches G ev))
      \<and> row_keys (table st') = row_keys (table st)
      \<and> get_subscriptions (table st') G = get_subscriptions (table st) G)"

section \<open>Properties of the evaluator\<close>

lemma dict_get_Nil: "dict_get [] k = JNull"
  by (simp add: dict_get_def)

lemma dict_get_Cons: "dict_get ((k, v) # d) k' = (if k = k' then v else dict_get d k')"
  by (simp add: dict_get_def)

lemma strptime_ymd_Nil: "strptime_ymd [] = Inl ValueError"
  by (simp add: strptime_ymd_def)

lemma strptime_ymd_nonempty: "strptime_ymd s = Inr t \<Longrightarrow> s \<noteq> []"
  by (auto simp: strptime_ymd_Nil)

lemma strptime_ymd_error: "strptime_ymd s = Inl e \<Longrightarrow> e = ValueError"
  by (auto simp: strptime_ymd_def split: option.splits if_splits prod.splits)

lemma strptime_ymd_20240115: "strptime_ymd ''2024-01-15'' = Inr (mk_datetime 2024 1 15 0 0 0)"
  by (simp add: strptime_ymd_def digit_in_def digit_val_def dv_def days_in_month_def is_leap_def)

lemma strptime_ymd_20240122: "strptime_ymd ''2024-01-22'' = Inr (mk_datetime 2024 1 22 0 0 0)"
  by (simp add: strptime_ymd_def digit_in_def digit_val_def dv_def days_in_month_def is_leap_def)

lemma strptime_ymd_not_a_date: "strptime_ymd ''not-a-date'' = Inl ValueError"
  by (simp add: strptime_ymd_def digit_in_def digit_val_def)

lemma mk_datetime_values:
  "mk_datetime 2024 1 15 0 0 0 = 63840873600000000"
  "mk_datetime 2024 1 15 9 30 0 = 63840907800000000"
  "mk_datetime 2024 1 16 12 0 0 = 63841003200000000"
  "mk_datetime 2024 1 22 0 0 0 = 63841478400000000"
  by (simp_all add: mk_datetime_def ymd2ord_def days_before_year_def days_before_month_def
      is_leap_def us_per_day_def)

lemma movie_details_get:
  "dict_get movie_details ''release_date'' = JStr ''2024-01-15''"
  "dict_get movie_details ''status'' = JStr ''Released''"
  "dict_get movie_details ''title'' = JStr ''The Matrix''"
  by (simp_all add: movie_details_def dict_get_def)

lemma tv_details_get:
  "dict_get tv_details ''last_air_date'' = JStr ''2024-01-15''"
  "dict_get tv_details ''name'' = JStr ''Game of Thrones''"
  "dict_get tv_details ''next_episode_to_air'' = JObj [(''air_date'', JStr ''2024-01-22''),
        (''season_number'', JNum 1), (''episode_number'', JNum 2)]"
  by (simp_all add: tv_details_def dict_get_def)

text \<open>
  C1, as the code has it. For a movie subscription with \<open>notify_on_release\<close> set, the
  fetched status "Released" and a release date that parses, the evaluator returns a
  release notification exactly when the whole days from the release date to now are at
  least 0 and at most \<open>update_interval_hours / 24\<close>, the quotient not rounded up: that
  is, \<open>0 \<le> days\<close> and \<open>24 * days \<le> update_interval_hours\<close>. Outside that window it
  returns no release notification.
\<close>

theorem release_window:
  assumes "media_type sub = ''movie''" and "notify_on_release sub"
    and "dict_get details ''status'' = JStr ''Released''"
    and "dict_get details ''release_date'' = JStr s"
    and "strptime_ymd s = Inr release_dt"
  shows "emits ''release'' (check_for_updates cfg sub details now)
           \<longleftrightarrow> (0 \<le> td_days (now - release_dt)
                \<and> 24 * td_days (now - release_dt) \<le> UPDATE_INTERVAL_HOURS cfg)"
  using assms strptime_ymd_nonempty[OF assms(5)]
  by (simp add: check_for_updates_def emits_def within_interval_def Let_def dict_get_Cons)

text \<open>
  The theorem at a release of the same day, nine and a half hours old, with the default
  interval of 6 hours: the release notification is returned.
\<close>

theorem release_window_witness:
  "strptime_ymd ''2024-01-15'' = Inr (mk_datetime 2024 1 15 0 0 0)
   \<and> td_days (mk_datetime 2024 1 15 9 30 0 - mk_datetime 2024 1 15 0 0 0) = 0
   \<and> emits ''release''
       (check_for_updates default_config movie_sub movie_details (mk_datetime 2024 1 15 9 30 0))"
  using release_window[of movie_sub movie_details "''2024-01-15''" "mk_datetime 2024 1 15 0 0 0"
      default_config "mk_datetime 2024 1 15 9 30 0"]
  by (simp add: movie_sub_def movie_details_get strptime_ymd_20240115 default_config_def
      td_days_def mk_datetime_values us_per_day_def)

text \<open>
  C1 as the specification states it fails one day after the release: with the default
  interval the specification's bound \<open>ceil(6 / 24)\<close> admits one whole day, and the
  evaluator returns no notification there.
\<close>

theorem release_window_counterexample:
  "td_days (mk_datetime 2024 1 16 12 0 0 - mk_datetime 2024 1 15 0 0 0) = 1
   \<and> spec_window default_config 1
   \<and> check_for_updates default_config movie_sub movie_details (mk_datetime 2024 1 16 12 0 0)
       = Inr None"
proof -
  have days: "td_days (mk_datetime 2024 1 16 12 0 0 - mk_datetime 2024 1 15 0 0 0) = 1"
    by (simp add: td_days_def mk_datetime_values us_per_day_def)
  have window: "spec_window default_config 1"
    by (simp add: spec_window_def default_config_def)
  have "check_for_updates default_config movie_sub movie_details (mk_datetime 2024 1 16 12 0 0)
          = Inr None"
    by (simp add: days check_for_updates_def movie_sub_def movie_details_get
        strptime_ymd_20240115 within_interval_def default_config_def)
  with days window show ?thesis by simp
qed

text \<open>
  C2, as the code has it. For a series subscription with \<open>notify_on_update\<close> set and a
  last air date that parses, the evaluator returns an episode-aired notification exactly
  when \<open>next_episode_to_air\<close> is absent (or falsy) and the whole days since the last
  air date satisfy \<open>0 \<le> days\<close> and \<open>24 * days \<le> update_interval_hours\<close>. When a next
  episode is present the last air date is not looked at, whatever the next episode's
  air date is.
\<close>

theorem episode_aired_window:
  assumes "media_type sub = ''tv''" and "notify_on_update sub"
    and "dict_get details ''last_air_date'' = JStr s"
    and "strptime_ymd s = Inr last_dt"
  shows "emits ''episode_aired'' (check_for_updates cfg sub details now)
           \<longleftrightarrow> (\<not> truthy (dict_get details ''next_episode_to_air'')
                \<and> 0 \<le> td_days (now - last_dt)
                \<and> 24 * td_days (now - last_dt) \<le> UPDATE_INTERVAL_HOURS cfg)"
  using assms strptime_ymd_nonempty[OF assms(4)]
  by (auto simp add: check_for_updates_def emits_def within_interval_def Let_def dict_get_Cons
      split: sum.splits)

text \<open>
  The theorem at a series with no next episode announced whose last episode aired the
  same day: the episode-aired notification is returned.
\<close>

theorem episode_aired_window_witness:
  "strptime_ymd ''2024-01-15'' = Inr (mk_datetime 2024 1 15 0 0 0)
   \<and> \<not> truthy (dict_get [(''name'', JStr ''Game of Thrones''),
                           (''last_air_date'', JStr ''2024-01-15'')] ''next_episode_to_air'')
   \<and> emits ''episode_aired''
       (check_for_updates default_config tv_sub
          [(''name'', JStr ''Game of Thrones''), (''last_air_date'', JStr ''2024-01-15'')]
          (mk_datetime 2024 1 15 9 30 0))"
  using episode_aired_window[of tv_sub
      "[(''name'', JStr ''Game of Thrones''), (''last_air_date'', JStr ''2024-01-15'')]"
      "''2024-01-15''" "mk_datetime 2024 1 15 0 0 0" default_config "mk_datetime 2024 1 15 9 30 0"]
  by (simp add: tv_sub_def dict_get_Cons dict_get_Nil strptime_ymd_20240115 default_config_def
      td_days_def mk_datetime_values us_per_day_def)

text \<open>
  C2 as the specification states it fails for a series whose last episode aired today
  (inside the specification's window and the code's) and whose next episode airs six
  days ahead, not one: the evaluator returns no notification.
\<close>

theorem episode_aired_counterexample:
  "notify_on_update tv_sub
   \<and> truthy (dict_get tv_details ''next_episode_to_air'')
   \<and> td_days (mk_datetime 2024 1 22 0 0 0 - mk_datetime 2024 1 15 9 30 0) = 6
   \<and> spec_window default_config
       (td_days (mk_datetime 2024 1 15 9 30 0 - mk_datetime 2024 1 15 0 0 0))
   \<and> check_for_updates default_config tv_sub tv_details (mk_datetime 2024 1 15 9 30 0)
       = Inr None"
  by (simp add: check_for_updates_def tv_sub_def tv_details_get strptime_ymd_20240122
      dict_get_Cons mk_datetime_values td_days_def us_per_day_def spec_window_def
      default_config_def)

text \<open>
  C3, as the code has it. Let \<open>s\<close> be a date string that does not parse as YYYY-MM-DD.
  When \<open>s\<close> is empty, or the flag of the branch is off, the evaluator returns "no
  notification". When \<open>s\<close> is not empty and the flag is on, the evaluator raises
  \<open>ValueError\<close> to its caller: for a movie with \<open>s\<close> as release date, for a series with
  \<open>s\<close> as air date of the next episode, and for a series with no next episode and \<open>s\<close>
  as last air date.
\<close>

theorem malformed_date:
  assumes "strptime_ymd s = Inl ValueError"
  shows "(media_type sub = ''movie'' \<and> dict_get details ''release_date'' = JStr s
            \<longrightarrow> check_for_updates cfg sub details now
                  = (if s \<noteq> [] \<and> notify_on_release sub then Inl ValueError else Inr None))
       \<and> (media_type sub = ''tv'' \<and> dict_get details ''next_episode_to_air'' = JObj ep
            \<and> ep \<noteq> [] \<and> dict_get ep ''air_date'' = JStr s
            \<longrightarrow> check_for_updates cfg sub details now
                  = (if s \<noteq> [] \<and> notify_on_update sub then Inl ValueError else Inr None))
       \<and> (media_type sub = ''tv'' \<and> \<not> truthy (dict_get details ''next_episode_to_air'')
            \<and> dict_get details ''last_air_date'' = JStr s
            \<longrightarrow> check_for_updates cfg sub details now
                  = (if s \<noteq> [] \<and> notify_on_update sub then Inl ValueError else Inr None))"
  using assms
  by (simp add: check_for_updates_def Let_def)

text \<open>
  The theorem at a series with no next episode and the last air date "not-a-date":
  the evaluator raises.
\<close>

theorem malformed_date_witness:
  "strptime_ymd ''not-a-date'' = Inl ValueError
   \<and> check_for_updates default_config tv_sub
       [(''name'', JStr ''Game of Thrones''), (''last_air_date'', JStr ''not-a-date'')]
       (mk_datetime 2024 1 15 9 30 0) = Inl ValueError"
  using malformed_date[OF strptime_ymd_not_a_date, where sub = tv_sub
      and details = "[(''name'', JStr ''Game of Thrones''), (''last_air_date'', JStr ''not-a-date'')]"
      and cfg = default_config and now = "mk_datetime 2024 1 15 9 30 0"]
  by (simp add: tv_sub_def dict_get_Cons dict_get_Nil strptime_ymd_not_a_date)

text \<open>
  C3 as the specification states it fails for a movie whose release date is
  "not-a-date": the call does not return "no notification", it raises.
\<close>

theorem malformed_date_counterexample:
  "strptime_ymd ''not-a-date'' = Inl ValueError
   \<and> check_for_updates default_config movie_sub
       [(''title'', JStr ''The Matrix''), (''status'', JStr ''Released''),
        (''release_date'', JStr ''not-a-date'')]
       (mk_datetime 2024 1 15 9 30 0) = Inl ValueError"
  by (simp add: check_for_updates_def movie_sub_def dict_get_Cons dict_get_Nil
      strptime_ymd_not_a_date)

section \<open>Properties of the dispatcher\<close>

lemma release_note:
  "check_for_updates default_config movie_sub movie_details (mk_datetime 2024 1 15 9 30 0)
     = Inr (Some [(''type'', JStr ''release''), (''date'', JStr ''2024-01-15''),
                  (''title'', JStr ''The Matrix'')])"
  by (simp add: check_for_updates_def movie_sub_def movie_details_get strptime_ymd_20240115
      within_interval_def default_config_def td_days_def mk_datetime_values us_per_day_def)

lemma release_embed:
  "notification_embed movie_sub [(''type'', JStr ''release''), (''date'', JStr ''2024-01-15''),
                  (''title'', JStr ''The Matrix'')]
    = Inr (Some \<lparr>template = JStr ''release'', e_media_type = ''movie'', e_title = JStr ''The Matrix'',
          e_date = Rendered (mk_datetime 2024 1 15 0 0 0), e_episode = None, thumbnail = None,
          link_id = 603\<rparr>)"
  by (simp add: notification_embed_def dict_item_def movie_sub_def strptime_ymd_20240115)

lemma release_message_embed:
  "notification_embed movie_sub release_notification = Inr (Some release_message)"
  by (simp add: release_notification_def release_message_def release_embed)

lemma test_world_simps:
  "select_guilds test_world = None"
  "resolve_guild test_world g = (if g = 10 \<or> g = 20 \<or> g = 40 then Some (cinema\<lparr>dg_id := g\<rparr>) else None)"
  "load_subscriptions test_world g = (if g = 40 then Some StoreError else None)"
  "get_movie_details test_world sid tid = (if tid = 603 then Inr movie_details else Inl RemoteError)"
  "get_tv_details test_world sid tid = Inl RemoteError"
  "utcnow test_world site sid = mk_datetime 2024 1 15 9 30 0"
  "channel_send test_world sid ch = Some SendError"
  "write_last_checked test_world sid = None"
  by (simp_all add: test_world_def)

lemma send_notification_cases:
  "send_notification w cfg guild gd sub n = evs \<Longrightarrow> ev \<in> set evs \<Longrightarrow>
     (\<exists>r. ev = LogWarning r) \<or> (\<exists>r. ev = LogError r) \<or> (\<exists>r. ev = LogInfo r) \<or> (\<exists>c m e. ev = Send c m e)"
  by (auto simp: send_notification_def Let_def split: option.splits sum.splits)

lemma send_notification_touches:
  "ev \<in> set (send_notification w cfg guild gd sub n) \<Longrightarrow> \<not> touches G ev"
  using send_notification_cases[OF refl, of ev w cfg guild gd sub n] by auto

text \<open>
  C4, as the code has it. For a notification that has an embed: when the guild row's
  \<open>notification_channel_id\<close> is set and resolves, the message is sent to that channel;
  when it is set and does not resolve, the dispatcher logs the warning and sends nothing,
  without looking at the system channel; when it is unset, the message is sent to the
  guild's system channel; when it is unset and the guild has no system channel, the
  dispatcher logs the warning and sends nothing.
\<close>

theorem destination_resolution:
  assumes "notification_embed sub n = Inr (Some em)"
  shows "(notification_channel_id gd = Some cid \<and> cid \<noteq> 0 \<and> get_channel guild cid = Some ch
            \<longrightarrow> sends_to (send_notification w cfg guild gd sub n) = [ch])
       \<and> (notification_channel_id gd = Some cid \<and> cid \<noteq> 0 \<and> get_channel guild cid = None
            \<longrightarrow> send_notification w cfg guild gd sub n = [LogWarning (NoChannel (dg_id guild))])
       \<and> ((notification_channel_id gd = None \<or> notification_channel_id gd = Some 0)
            \<and> system_channel guild = Some ch
            \<longrightarrow> sends_to (send_notification w cfg guild gd sub n) = [ch])
       \<and> ((notification_channel_id gd = None \<or> notification_channel_id gd = Some 0)
            \<and> system_channel guild = None
            \<longrightarrow> send_notification w cfg guild gd sub n = [LogWarning (NoChannel (dg_id guild))])"
  using assms
  by (auto simp: send_notification_def Let_def split: option.splits)

text \<open>
  The theorem at the four cases: the channel 7 that resolves, the channel 8 that does
  not, no configured channel with the system channel 5, and no configured channel in a
  guild without a system channel.
\<close>

theorem destination_resolution_witness:
  "get_channel cinema 7 = Some (Channel 7)
   \<and> sends_to (send_notification test_world default_config cinema cinema_row movie_sub
        release_notification) = [Channel 7]
   \<and> get_channel cinema 8 = None
   \<and> send_notification test_world default_config cinema
        (cinema_row\<lparr>notification_channel_id := Some 8\<rparr>) movie_sub release_notification
       = [LogWarning (NoChannel (dg_id cinema))]
   \<and> system_channel cinema = Some (Channel 5)
   \<and> sends_to (send_notification test_world default_config cinema lounge_row movie_sub
        release_notification) = [Channel 5]
   \<and> send_notification test_world default_config (cinema\<lparr>system_channel := None\<rparr>)
        lounge_row movie_sub release_notification
       = [LogWarning (NoChannel (dg_id (cinema\<lparr>system_channel := None\<rparr>)))]"
proof -
  have g7: "get_channel cinema 7 = Some (Channel 7)" and g8: "get_channel cinema 8 = None"
    and sc: "system_channel cinema = Some (Channel 5)"
    by (simp_all add: cinema_def)
  have r1: "notification_channel_id cinema_row = Some 7"
    and r2: "notification_channel_id (cinema_row\<lparr>notification_channel_id := Some 8\<rparr>) = Some 8"
    and r3: "notification_channel_id lounge_row = None"
    by (simp_all add: cinema_row_def lounge_row_def)
  have s0: "system_channel (cinema\<lparr>system_channel := None\<rparr>) = None" by simp
  note th = destination_resolution[OF release_message_embed]
  have p1: "sends_to (send_notification test_world default_config cinema cinema_row movie_sub
        release_notification) = [Channel 7]"
    using th[where gd = cinema_row and cid = 7 and guild = cinema and ch = "Channel 7"
        and w = test_world and cfg = default_config] r1 g7 by simp
  have p2: "send_notification test_world default_config cinema
        (cinema_row\<lparr>notification_channel_id := Some 8\<rparr>) movie_sub release_notification
       = [LogWarning (NoChannel (dg_id cinema))]"
    using th[where gd = "cinema_row\<lparr>notification_channel_id := Some 8\<rparr>" and cid = 8
        and guild = cinema and w = test_world and cfg = default_config] r2 g8 by simp
  have p3: "sends_to (send_notification test_world default_config cinema lounge_row movie_sub
        release_notification) = [Channel 5]"
    using th[where gd = lounge_row and guild = cinema and ch = "Channel 5"
        and w = test_world and cfg = default_config] r3 sc by simp
  have p4: "send_notification test_world default_config (cinema\<lparr>system_channel := None\<rparr>)
        lounge_row movie_sub release_notification
       = [LogWarning (NoChannel (dg_id (cinema\<lparr>system_channel := None\<rparr>)))]"
    using th[where gd = lounge_row and guild = "cinema\<lparr>system_channel := None\<rparr>"
        and w = test_world and cfg = default_config] r3 s0 by simp
  from g7 g8 sc p1 p2 p3 p4 show ?thesis by (intro conjI)
qed

text \<open>
  C4 as the specification states it fails when the configured channel 8 does not resolve
  and the guild has the system channel 5: nothing is sent to the system channel, the
  dispatcher only logs the warning.
\<close>

theorem destination_resolution_counterexample:
  "notification_channel_id (cinema_row\<lparr>notification_channel_id := Some 8\<rparr>) = Some 8
   \<and> get_channel cinema 8 = None
   \<and> system_channel cinema = Some (Channel 5)
   \<and> notification_embed movie_sub release_notification = Inr (Some release_message)
   \<and> send_notification test_world default_config cinema
        (cinema_row\<lparr>notification_channel_id := Some 8\<rparr>) movie_sub release_notification
       = [LogWarning (NoChannel 10)]
   \<and> sends_to (send_notification test_world default_config cinema
        (cinema_row\<lparr>notification_channel_id := Some 8\<rparr>) movie_sub release_notification) = []"
proof -
  have s: "send_notification test_world default_config cinema
        (cinema_row\<lparr>notification_channel_id := Some 8\<rparr>) movie_sub release_notification
       = [LogWarning (NoChannel 10)]"
    by (simp add: send_notification_def cinema_def cinema_row_def)
  have "get_channel cinema 8 = None" and "system_channel cinema = Some (Channel 5)"
    by (simp_all add: cinema_def)
  moreover have "notification_channel_id (cinema_row\<lparr>notification_channel_id := Some 8\<rparr>) = Some 8"
    by simp
  ultimately show ?thesis using s release_message_embed by simp
qed

section \<open>Properties of the poll loop\<close>

lemma trace_emit: "trace (emit evs st) = trace st @ evs" "table (emit evs st) = table st"
  "total_updates (emit evs st) = total_updates st"
  by (simp_all add: emit_def)

lemma not_recent:
  "\<not> checked_recently test_world default_config movie_sub"
  "\<not> checked_recently test_world default_config tv_sub"
  by (simp_all add: checked_recently_def movie_sub_def tv_sub_def)

lemma handle_fetch_fails:
  assumes "\<not> checked_recently w cfg sub" and "fetch_details w sub = Inl e"
  shows "handle_subscription w cfg guild gd sub st
           = emit [Fetch sub, LogError (SubscriptionError (sub_id sub) e)] st"
  using assms
  by (simp add: check_subscription_def handle_subscription_def emit_def Let_def)

lemma handle_notified:
  assumes "\<not> checked_recently w cfg sub" and "fetch_details w sub = Inr details"
    and "check_for_updates cfg sub details (utcnow w Evaluation (sub_id sub)) = Inr (Some n)"
    and "n \<noteq> []" and "write_last_checked w (sub_id sub) = None"
  shows "handle_subscription w cfg guild gd sub st
           = st\<lparr>table := set_last_checked (sub_id sub) (utcnow w WriteBack (sub_id sub)) (table st),
                trace := trace st @ [Fetch sub, Evaluate sub, Dispatch sub]
                           @ send_notification w cfg guild gd sub n
                           @ [SetLastChecked sub (utcnow w WriteBack (sub_id sub)), Sleep],
                total_updates := total_updates st + 1\<rparr>"
  using assms
  by (simp add: check_subscription_def handle_subscription_def emit_def Let_def)

lemma set_last_checked_rows:
  assumes "r \<in> set (set_last_checked sid t tbl)" and "sub_id r = sid"
  shows "last_checked r = Some t"
proof -
  let ?f = "\<lambda>s. if sub_id s = sid then s\<lparr>last_checked := Some t\<rparr> else s"
  have id: "sub_id (?f x) = sub_id x" for x by simp
  have lc: "sub_id x = sid \<Longrightarrow> last_checked (?f x) = Some t" for x by simp
  from assms(1) have "r \<in> ?f ` set tbl"
    by (simp only: set_last_checked_def set_map)
  then obtain x where r: "r = ?f x"
    by (rule imageE)
  from assms(2) have "sub_id x = sid" unfolding r id .
  then show ?thesis unfolding r by (rule lc)
qed

lemma for_subscriptions_append:
  "for_subscriptions w cfg guild gd (xs @ ys) st
     = for_subscriptions w cfg guild gd ys (for_subscriptions w cfg guild gd xs st)"
  by (induction xs arbitrary: st) simp_all

lemma for_guilds_append:
  "for_guilds w cfg (xs @ ys) st = for_guilds w cfg ys (for_guilds w cfg xs st)"
  by (induction xs arbitrary: st) simp_all

text \<open>
  C6. For a subscription whose \<open>last_checked\<close> is set and less than the update interval
  before the time read at the staleness test, the body of the iteration returns at once
  and the iteration leaves the state as it was: the trace gets no event (no fetch, no call
  of the evaluator or of the dispatcher, no write), the table is unchanged and the
  counter is unchanged.
\<close>

theorem staleness_skip:
  assumes "last_checked sub = Some t"
    and "utcnow w StalenessCheck (sub_id sub) - t < timedelta_hours (UPDATE_INTERVAL_HOURS cfg)"
  shows "check_subscription w cfg guild gd sub st = (None, st)
       \<and> handle_subscription w cfg guild gd sub st = st"
  using assms
  by (simp add: check_subscription_def handle_subscription_def checked_recently_def)

text \<open>The theorem at a subscription checked two hours before, with the interval of 6 hours.\<close>

theorem staleness_skip_witness:
  "last_checked checked_sub = Some (mk_datetime 2024 1 15 9 30 0 - timedelta_hours 2)
   \<and> utcnow test_world StalenessCheck (sub_id checked_sub)
         - (mk_datetime 2024 1 15 9 30 0 - timedelta_hours 2)
       < timedelta_hours (UPDATE_INTERVAL_HOURS default_config)
   \<and> handle_subscription test_world default_config cinema cinema_row checked_sub start_state
       = start_state"
  using staleness_skip[of checked_sub "mk_datetime 2024 1 15 9 30 0 - timedelta_hours 2"
      test_world default_config cinema cinema_row start_state]
  by (simp add: checked_sub_def test_world_simps default_config_def timedelta_hours_def)

lemma set_last_checked_member:
  assumes "x \<in> set tbl"
  shows "(if sub_id x = sid then x\<lparr>last_checked := Some t\<rparr> else x)
           \<in> set (set_last_checked sid t tbl)"
proof -
  let ?f = "\<lambda>s. if sub_id s = sid then s\<lparr>last_checked := Some t\<rparr> else s"
  from assms have "?f x \<in> ?f ` set tbl" by (rule imageI)
  then show ?thesis by (simp only: set_last_checked_def set_map)
qed

lemma set_last_checked_own_row:
  assumes "x \<in> set tbl"
  shows "x\<lparr>last_checked := Some t\<rparr> \<in> set (set_last_checked (sub_id x) t tbl)"
  using set_last_checked_member[OF assms, of "sub_id x" t] by (simp only: if_True simp_thms)

lemma start_state_written:
  "set_last_checked 1 (mk_datetime 2024 1 15 9 30 0) (table start_state)
     = [tv_sub, movie_sub\<lparr>last_checked := Some (mk_datetime 2024 1 15 9 30 0)\<rparr>,
        lounge_sub, attic_sub, checked_sub]"
  by (simp add: set_last_checked_def start_state_def test_store_def tv_sub_def movie_sub_def
      lounge_sub_def attic_sub_def checked_sub_def)

text \<open>
  C7. For a subscription that is not skipped as checked recently: when the fetch raises,
  the iteration only adds the fetch and the error log, and the table is unchanged, so
  \<open>last_checked\<close> is not updated. When the fetch returns, the evaluator returns a
  notification and the store accepts the write, then whatever the dispatcher did (a send
  that raised, a channel that did not resolve, an embed that could not be built), the
  write happens after it: the table is the old one with \<open>last_checked\<close> of the row set to
  the time read for the write, every row with the subscription's id carries that time,
  and when the subscription is a row of the table, the row with its \<open>last_checked\<close> set
  to that time is a row of the new table.
\<close>

theorem last_checked_bookkeeping:
  assumes "\<not> checked_recently w cfg sub"
  shows "(fetch_details w sub = Inl e
            \<longrightarrow> handle_subscription w cfg guild gd sub st
                  = emit [Fetch sub, LogError (SubscriptionError (sub_id sub) e)] st
                \<and> table (handle_subscription w cfg guild gd sub st) = table st)
       \<and> (fetch_details w sub = Inr details
            \<and> check_for_updates cfg sub details (utcnow w Evaluation (sub_id sub)) = Inr (Some n)
            \<and> n \<noteq> [] \<and> write_last_checked w (sub_id sub) = None
            \<longrightarrow> trace (handle_subscription w cfg guild gd sub st)
                  = trace st @ [Fetch sub, Evaluate sub, Dispatch sub]
                      @ send_notification w cfg guild gd sub n
                      @ [SetLastChecked sub (utcnow w WriteBack (sub_id sub)), Sleep]
                \<and> table (handle_subscription w cfg guild gd sub st)
                  = set_last_checked (sub_id sub) (utcnow w WriteBack (sub_id sub)) (table st)
                \<and> (\<forall>r \<in> set (table (handle_subscription w cfg guild gd sub st)).
                      sub_id r = sub_id sub
                        \<longrightarrow> last_checked r = Some (utcnow w WriteBack (sub_id sub)))
                \<and> (sub \<in> set (table st)
                      \<longrightarrow> sub\<lparr>last_checked := Some (utcnow w WriteBack (sub_id sub))\<rparr>
                            \<in> set (table (handle_subscription w cfg guild gd sub st))))"
proof (intro conjI impI)
  assume f: "fetch_details w sub = Inl e"
  show "handle_subscription w cfg guild gd sub st
          = emit [Fetch sub, LogError (SubscriptionError (sub_id sub) e)] st"
    using handle_fetch_fails[OF assms f] .
  then show "table (handle_subscription w cfg guild gd sub st) = table st"
    by (simp add: emit_def)
next
  assume a: "fetch_details w sub = Inr details
     \<and> check_for_updates cfg sub details (utcnow w Evaluation (sub_id sub)) = Inr (Some n)
     \<and> n \<noteq> [] \<and> write_last_checked w (sub_id sub) = None"
  have h: "handle_subscription w cfg guild gd sub st
      = st\<lparr>table := set_last_checked (sub_id sub) (utcnow w WriteBack (sub_id sub)) (table st),
           trace := trace st @ [Fetch sub, Evaluate sub, Dispatch sub]
                      @ send_notification w cfg guild gd sub n
                      @ [SetLastChecked sub (utcnow w WriteBack (sub_id sub)), Sleep],
           total_updates := total_updates st + 1\<rparr>"
    using handle_notified[OF assms, of details n] a by simp
  show "trace (handle_subscription w cfg guild gd sub st)
          = trace st @ [Fetch sub, Evaluate sub, Dispatch sub]
              @ send_notification w cfg guild gd sub n
              @ [SetLastChecked sub (utcnow w WriteBack (sub_id sub)), Sleep]"
    using h by simp
  show t: "table (handle_subscription w cfg guild gd sub st)
          = set_last_checked (sub_id sub) (utcnow w WriteBack (sub_id sub)) (table st)"
    using h by simp
  show "\<forall>r \<in> set (table (handle_subscription w cfg guild gd sub st)).
          sub_id r = sub_id sub \<longrightarrow> last_checked r = Some (utcnow w WriteBack (sub_id sub))"
    unfolding t using set_last_checked_rows by blast
  assume "sub \<in> set (table st)"
  then show "sub\<lparr>last_checked := Some (utcnow w WriteBack (sub_id sub))\<rparr>
      \<in> set (table (handle_subscription w cfg guild gd sub st))"
    unfolding t by (rule set_last_checked_own_row)
qed

text \<open>
  The theorem at a series whose fetch fails (the table stays) and at a movie released
  today whose send raises: the table after the iteration holds the movie's row with
  \<open>last_checked\<close> at 2024-01-15 09:30, and the other rows as they were.
\<close>

theorem last_checked_bookkeeping_witness:
  "fetch_details test_world tv_sub = Inl RemoteError
   \<and> table (handle_subscription test_world default_config cinema cinema_row tv_sub start_state)
       = table start_state
   \<and> fetch_details test_world movie_sub = Inr movie_details
   \<and> send_notification test_world default_config cinema cinema_row movie_sub
         release_notification
       = [Send (Channel 7) (Some ''@film-fans'') release_message,
          LogError (SendFailed SendError)]
   \<and> movie_sub \<in> set (table start_state)
   \<and> table (handle_subscription test_world default_config cinema cinema_row movie_sub start_state)
       = [tv_sub, movie_sub\<lparr>last_checked := Some (mk_datetime 2024 1 15 9 30 0)\<rparr>,
          lounge_sub, attic_sub, checked_sub]
   \<and> movie_sub\<lparr>last_checked := Some (mk_datetime 2024 1 15 9 30 0)\<rparr>
       \<in> set (table (handle_subscription test_world default_config cinema cinema_row movie_sub
                        start_state))"
proof -
  have f1: "fetch_details test_world tv_sub = Inl RemoteError"
    by (simp add: fetch_details_def tv_sub_def test_world_simps)
  have f2: "fetch_details test_world movie_sub = Inr movie_details"
    by (simp add: fetch_details_def movie_sub_def test_world_simps)
  have s: "send_notification test_world default_config cinema cinema_row movie_sub
         release_notification
       = [Send (Channel 7) (Some ''@film-fans'') release_message,
          LogError (SendFailed SendError)]"
    by (simp add: send_notification_def release_message_embed cinema_def cinema_row_def
        default_config_def test_world_simps)
  have id1: "sub_id movie_sub = 1" by (simp add: movie_sub_def)
  have m: "movie_sub \<in> set (table start_state)"
    by (simp add: start_state_def test_store_def)
  have ev: "check_for_updates default_config movie_sub movie_details
              (utcnow test_world Evaluation (sub_id movie_sub)) = Inr (Some release_notification)"
    by (simp only: test_world_simps release_note release_notification_def)
  have ne: "release_notification \<noteq> []" by (simp add: release_notification_def)
  have wr: "write_last_checked test_world (sub_id movie_sub) = None"
    by (simp only: test_world_simps)
  note t1 = last_checked_bookkeeping[OF not_recent(2), where e = RemoteError
      and guild = cinema and gd = cinema_row and st = start_state, THEN conjunct1, THEN mp, OF f1,
      THEN conjunct2]
  note t2 = last_checked_bookkeeping[OF not_recent(1), where details = movie_details
      and n = release_notification and guild = cinema and gd = cinema_row and st = start_state,
      THEN conjunct2, THEN mp, OF conjI[OF f2 conjI[OF ev conjI[OF ne wr]]]]
  have tb: "table (handle_subscription test_world default_config cinema cinema_row movie_sub start_state)
       = [tv_sub, movie_sub\<lparr>last_checked := Some (mk_datetime 2024 1 15 9 30 0)\<rparr>,
          lounge_sub, attic_sub, checked_sub]"
    using t2[THEN conjunct2, THEN conjunct1]
    by (simp only: id1 test_world_simps start_state_written)
  have row: "movie_sub\<lparr>last_checked := Some (mk_datetime 2024 1 15 9 30 0)\<rparr>
       \<in> set (table (handle_subscription test_world default_config cinema cinema_row movie_sub
                        start_state))"
    using t2[THEN conjunct2, THEN conjunct2, THEN conjunct2, THEN mp, OF m]
    by (simp only: id1 test_world_simps)
  from f1 t1 f2 s m tb row show ?thesis by (intro conjI)
qed

lemma handle_subscription_trace:
  "\<exists>evs. trace (handle_subscription w cfg guild gd sub st) = trace st @ evs"
  by (auto simp: handle_subscription_def check_subscription_def Let_def emit_def
      split: option.splits sum.splits prod.splits)

lemma handle_subscription_fetch:
  "\<not> checked_recently w cfg sub \<Longrightarrow> Fetch sub \<in> set (trace (handle_subscription w cfg guild gd sub st))"
  by (auto simp: handle_subscription_def check_subscription_def Let_def emit_def
      split: option.splits sum.splits prod.splits)

lemma for_subscriptions_trace:
  "\<exists>evs. trace (for_subscriptions w cfg guild gd subs st) = trace st @ evs"
proof (induction subs arbitrary: st)
  case Nil
  then show ?case by simp
next
  case (Cons sub subs)
  obtain e1 where e1: "trace (handle_subscription w cfg guild gd sub st) = trace st @ e1"
    using handle_subscription_trace by blast
  obtain e2 where "trace (for_subscriptions w cfg guild gd subs (handle_subscription w cfg guild gd sub st))
      = trace (handle_subscription w cfg guild gd sub st) @ e2"
    using Cons.IH by blast
  with e1 show ?case by simp
qed

lemma for_subscriptions_fetch:
  "sub \<in> set subs \<Longrightarrow> \<not> checked_recently w cfg sub
     \<Longrightarrow> Fetch sub \<in> set (trace (for_subscriptions w cfg guild gd subs st))"
proof (induction subs arbitrary: st)
  case Nil
  then show ?case by simp
next
  case (Cons x subs)
  show ?case
  proof (cases "sub = x")
    case True
    have "Fetch sub \<in> set (trace (handle_subscription w cfg guild gd x st))"
      using True Cons.prems(2) handle_subscription_fetch by simp
    moreover obtain evs where
      "trace (for_subscriptions w cfg guild gd subs (handle_subscription w cfg guild gd x st))
         = trace (handle_subscription w cfg guild gd x st) @ evs"
      using for_subscriptions_trace by blast
    ultimately show ?thesis by simp
  next
    case False
    with Cons.prems have "sub \<in> set subs" by simp
    then show ?thesis using Cons.IH Cons.prems(2) by simp
  qed
qed

lemma handle_guild_trace:
  "\<exists>evs. trace (handle_guild w cfg gd st) = trace st @ evs"
proof -
  have fs: "\<And>guild subs st0. \<exists>evs. trace (for_subscriptions w cfg guild gd subs st0) = trace st0 @ evs"
    using for_subscriptions_trace by blast
  show ?thesis
  proof (cases "resolve_guild w (g_id gd)")
    case None
    then show ?thesis by (simp add: handle_guild_def check_guild_def)
  next
    case (Some guild)
    show ?thesis
    proof (cases "load_subscriptions w (g_id gd)")
      case (Some e)
      with \<open>resolve_guild w (g_id gd) = Some guild\<close> show ?thesis
        by (simp add: handle_guild_def check_guild_def Let_def emit_def)
    next
      case None
      let ?st1 = "emit [LoadSubscriptions (g_id gd)] st"
      let ?subs = "get_subscriptions (table ?st1) (g_id gd)"
      show ?thesis
      proof (cases "?subs = []")
        case True
        with None \<open>resolve_guild w (g_id gd) = Some guild\<close> show ?thesis
          by (simp add: handle_guild_def check_guild_def Let_def emit_def)
      next
        case False
        let ?st2 = "emit [LogInfo (Checking (length ?subs) (dg_name guild))] ?st1"
        have eq: "handle_guild w cfg gd st = for_subscriptions w cfg guild gd ?subs ?st2"
          using False None \<open>resolve_guild w (g_id gd) = Some guild\<close>
          by (simp add: handle_guild_def check_guild_def Let_def)
        obtain evs where "trace (for_subscriptions w cfg guild gd ?subs ?st2) = trace ?st2 @ evs"
          using fs by blast
        with eq show ?thesis by (simp add: emit_def)
      qed
    qed
  qed
qed

lemma for_guilds_trace:
  "\<exists>evs. trace (for_guilds w cfg gs st) = trace st @ evs"
proof (induction gs arbitrary: st)
  case Nil
  then show ?case by simp
next
  case (Cons gd gs)
  obtain e1 where e1: "trace (handle_guild w cfg gd st) = trace st @ e1"
    using handle_guild_trace by blast
  obtain e2 where "trace (for_guilds w cfg gs (handle_guild w cfg gd st))
      = trace (handle_guild w cfg gd st) @ e2"
    using Cons.IH by blast
  with e1 show ?case by simp
qed

lemma handle_guild_load:
  "resolve_guild w (g_id gd) = Some guild
     \<Longrightarrow> LoadSubscriptions (g_id gd) \<in> set (trace (handle_guild w cfg gd st))"
proof -
  assume r: "resolve_guild w (g_id gd) = Some guild"
  let ?st1 = "emit [LoadSubscriptions (g_id gd)] st"
  have in1: "LoadSubscriptions (g_id gd) \<in> set (trace ?st1)" by (simp add: emit_def)
  show ?thesis
  proof (cases "load_subscriptions w (g_id gd)")
    case (Some e)
    with r show ?thesis by (simp add: handle_guild_def check_guild_def Let_def emit_def)
  next
    case None
    let ?subs = "get_subscriptions (table ?st1) (g_id gd)"
    show ?thesis
    proof (cases "?subs = []")
      case True
      with None r show ?thesis by (simp add: handle_guild_def check_guild_def Let_def emit_def)
    next
      case False
      let ?st2 = "emit [LogInfo (Checking (length ?subs) (dg_name guild))] ?st1"
      have eq: "handle_guild w cfg gd st = for_subscriptions w cfg guild gd ?subs ?st2"
        using False None r by (simp add: handle_guild_def check_guild_def Let_def)
      obtain evs where "trace (for_subscriptions w cfg guild gd ?subs ?st2) = trace ?st2 @ evs"
        using for_subscriptions_trace by blast
      with eq show ?thesis by (simp add: emit_def)
    qed
  qed
qed

lemma for_guilds_load:
  "gd \<in> set gs \<Longrightarrow> resolve_guild w (g_id gd) = Some guild
     \<Longrightarrow> LoadSubscriptions (g_id gd) \<in> set (trace (for_guilds w cfg gs st))"
proof (induction gs arbitrary: st)
  case Nil
  then show ?case by simp
next
  case (Cons x gs)
  show ?case
  proof (cases "gd = x")
    case True
    have "LoadSubscriptions (g_id gd) \<in> set (trace (handle_guild w cfg x st))"
      using True Cons.prems(2) handle_guild_load by simp
    moreover obtain evs where
      "trace (for_guilds w cfg gs (handle_guild w cfg x st)) = trace (handle_guild w cfg x st) @ evs"
      using for_guilds_trace by blast
    ultimately show ?thesis by simp
  next
    case False
    with Cons.prems have "gd \<in> set gs" by simp
    then show ?thesis using Cons.IH Cons.prems(2) by simp
  qed
qed

lemma subscription_failure_continues:
  assumes "check_subscription w cfg guild gd sub (for_subscriptions w cfg guild gd before st)
             = (Some e, st')"
  shows "for_subscriptions w cfg guild gd (before @ sub # rest) st
           = for_subscriptions w cfg guild gd rest
               (emit [LogError (SubscriptionError (sub_id sub) e)] st')"
  using assms by (simp add: for_subscriptions_append handle_subscription_def)

lemma guild_failure_continues:
  assumes "check_guild w cfg gd (for_guilds w cfg before st) = (Some e, st')"
  shows "for_guilds w cfg (before @ gd # rest) st
           = for_guilds w cfg rest (emit [LogError (GuildError (g_id gd) e)] st')"
  using assms by (simp add: for_guilds_append handle_guild_def)

lemma cycle_failure_caught:
  assumes "cycle_body w cfg db = (Some e, st')"
  shows "update_check w cfg db = emit [LogError (TaskError e)] st'"
  using assms by (simp add: update_check_def)

section \<open>Guilds a cycle leaves alone\<close>

lemma untouched_refl: "untouched G st st"
  by (simp add: untouched_def)

lemma untouched_trans: "untouched G a b \<Longrightarrow> untouched G b c \<Longrightarrow> untouched G a c"
  by (auto simp: untouched_def)

lemma untouched_emit: "\<forall>ev \<in> set evs. \<not> touches G ev \<Longrightarrow> untouched G st (emit evs st)"
  by (auto simp: untouched_def emit_def)

lemma row_keys_set_last_checked: "row_keys (set_last_checked sid t tbl) = row_keys tbl"
  by (simp add: row_keys_def set_last_checked_def)

lemma row_keys_unique:
  "distinct (map fst (row_keys tbl)) \<Longrightarrow> (sid, g) \<in> set (row_keys tbl)
     \<Longrightarrow> (sid, g') \<in> set (row_keys tbl) \<Longrightarrow> g = g'"
  by (metis eq_key_imp_eq_value)

lemma get_subscriptions_set_last_checked:
  assumes "distinct (map fst (row_keys tbl))" and "(sid, g) \<in> set (row_keys tbl)" and "g \<noteq> G"
  shows "get_subscriptions (set_last_checked sid t tbl) G = get_subscriptions tbl G"
proof -
  have other: "sub_id r \<noteq> sid" if "r \<in> set tbl" and "guild_id r = G" for r
  proof
    assume "sub_id r = sid"
    with that have "(sid, G) \<in> set (row_keys tbl)" by (force simp: row_keys_def)
    with assms show False using row_keys_unique by blast
  qed
  have "filter (\<lambda>s. guild_id s = G)
          (map (\<lambda>s. if sub_id s = sid then s\<lparr>last_checked := Some t\<rparr> else s) tbl)
        = filter (\<lambda>s. guild_id s = G) tbl"
    using other
  proof (induction tbl)
    case Nil
    then show ?case by simp
  next
    case (Cons a tbl)
    then show ?case by auto
  qed
  then show ?thesis by (simp add: get_subscriptions_def set_last_checked_def)
qed

lemma untouched_handle_subscription:
  assumes "guild_id sub \<noteq> G" and "(sub_id sub, guild_id sub) \<in> set (row_keys (table st))"
    and "distinct (map fst (row_keys (table st)))"
  shows "untouched G st (handle_subscription w cfg guild gd sub st)"
proof -
  have sn: "\<And>n. \<forall>ev \<in> set (send_notification w cfg guild gd sub n). \<not> touches G ev"
    using send_notification_touches by blast
  have gs: "\<And>t. get_subscriptions (set_last_checked (sub_id sub) t (table st)) G
                 = get_subscriptions (table st) G"
    using get_subscriptions_set_last_checked[OF assms(3) assms(2) assms(1)] by simp
  show ?thesis
    using assms(1) sn gs
    by (auto simp: untouched_def handle_subscription_def check_subscription_def Let_def emit_def
        row_keys_set_last_checked split: option.splits sum.splits)
qed

lemma untouched_for_subscriptions:
  assumes "\<forall>sub \<in> set subs. guild_id sub \<noteq> G
             \<and> (sub_id sub, guild_id sub) \<in> set (row_keys (table st))"
    and "distinct (map fst (row_keys (table st)))"
  shows "untouched G st (for_subscriptions w cfg guild gd subs st)"
  using assms
proof (induction subs arbitrary: st)
  case Nil
  then show ?case by (simp add: untouched_refl)
next
  case (Cons sub subs)
  let ?st1 = "handle_subscription w cfg guild gd sub st"
  have u1: "untouched G st ?st1"
    using Cons.prems untouched_handle_subscription by simp
  then have k: "row_keys (table ?st1) = row_keys (table st)" by (simp add: untouched_def)
  have "untouched G ?st1 (for_subscriptions w cfg guild gd subs ?st1)"
    using Cons.IH[of ?st1] Cons.prems k by simp
  with u1 show ?case using untouched_trans by simp
qed

lemma untouched_handle_guild:
  assumes "g_id gd \<noteq> G \<or> resolve_guild w (g_id gd) = None"
    and "distinct (map fst (row_keys (table st)))"
  shows "untouched G st (handle_guild w cfg gd st)"
proof (cases "resolve_guild w (g_id gd)")
  case None
  then show ?thesis by (simp add: handle_guild_def check_guild_def untouched_refl)
next
  case (Some guild)
  with assms have ne: "g_id gd \<noteq> G" by simp
  let ?st1 = "emit [LoadSubscriptions (g_id gd)] st"
  have u1: "untouched G st ?st1" using ne by (simp add: untouched_emit)
  show ?thesis
  proof (cases "load_subscriptions w (g_id gd)")
    case (Some e)
    have "untouched G ?st1 (emit [LogError (GuildError (g_id gd) e)] ?st1)"
      by (simp add: untouched_emit)
    with u1 have "untouched G st (emit [LogError (GuildError (g_id gd) e)] ?st1)"
      using untouched_trans by blast
    with Some \<open>resolve_guild w (g_id gd) = Some guild\<close> show ?thesis
      by (simp add: handle_guild_def check_guild_def Let_def)
  next
    case None
    let ?subs = "get_subscriptions (table ?st1) (g_id gd)"
    show ?thesis
    proof (cases "?subs = []")
      case True
      with None \<open>resolve_guild w (g_id gd) = Some guild\<close> u1 show ?thesis
        by (simp add: handle_guild_def check_guild_def Let_def)
    next
      case False
      let ?st2 = "emit [LogInfo (Checking (length ?subs) (dg_name guild))] ?st1"
      have eq: "handle_guild w cfg gd st = for_subscriptions w cfg guild gd ?subs ?st2"
        using False None \<open>resolve_guild w (g_id gd) = Some guild\<close>
        by (simp add: handle_guild_def check_guild_def Let_def)
      have u2: "untouched G ?st1 ?st2" by (simp add: untouched_emit)
      have t2: "table ?st2 = table st" by (simp add: emit_def)
      have rows: "\<forall>sub \<in> set ?subs. guild_id sub \<noteq> G
                    \<and> (sub_id sub, guild_id sub) \<in> set (row_keys (table ?st2))"
        using ne by (auto simp: get_subscriptions_def row_keys_def emit_def)
      have "untouched G ?st2 (for_subscriptions w cfg guild gd ?subs ?st2)"
        using untouched_for_subscriptions[OF rows] assms(2) t2 by simp
      with u1 u2 eq show ?thesis using untouched_trans by metis
    qed
  qed
qed

lemma untouched_for_guilds:
  assumes "\<forall>gd \<in> set gs. g_id gd \<noteq> G \<or> resolve_guild w (g_id gd) = None"
    and "distinct (map fst (row_keys (table st)))"
  shows "untouched G st (for_guilds w cfg gs st)"
  using assms
proof (induction gs arbitrary: st)
  case Nil
  then show ?case by (simp add: untouched_refl)
next
  case (Cons gd gs)
  let ?st1 = "handle_guild w cfg gd st"
  have u1: "untouched G st ?st1"
    using Cons.prems untouched_handle_guild by simp
  then have k: "row_keys (table ?st1) = row_keys (table st)" by (simp add: untouched_def)
  have "untouched G ?st1 (for_guilds w cfg gs ?st1)"
    using Cons.IH[of ?st1] Cons.prems k by simp
  with u1 show ?case using untouched_trans by simp
qed

lemma update_check_untouched:
  assumes "\<forall>gd \<in> set (guilds db). auto_update_enabled gd = Some True
             \<longrightarrow> g_id gd \<noteq> G \<or> resolve_guild w (g_id gd) = None"
    and "distinct (map sub_id (subscriptions db))"
  shows "(\<forall>ev \<in> set (trace (update_check w cfg db)). \<not> touches G ev)
       \<and> get_subscriptions (table (update_check w cfg db)) G
           = get_subscriptions (subscriptions db) G"
proof -
  let ?st0 = "\<lparr>table = subscriptions db, trace = [LogInfo Starting], total_updates = 0\<rparr>"
  let ?enabled = "filter (\<lambda>g. auto_update_enabled g = Some True) (guilds db)"
  have d: "distinct (map fst (row_keys (table ?st0)))"
    using assms(2) by (simp add: row_keys_def comp_def)
  have g: "\<forall>gd \<in> set ?enabled. g_id gd \<noteq> G \<or> resolve_guild w (g_id gd) = None"
    using assms(1) by auto
  have u: "untouched G ?st0 (for_guilds w cfg ?enabled ?st0)"
    using untouched_for_guilds[OF g d] .
  show ?thesis
  proof (cases "select_guilds w")
    case (Some e)
    then show ?thesis
      by (simp add: update_check_def cycle_body_def Let_def emit_def)
  next
    case None
    then have "update_check w cfg db
      = emit [LogInfo (Complete (total_updates (for_guilds w cfg ?enabled ?st0)))]
          (for_guilds w cfg ?enabled ?st0)"
      by (simp add: update_check_def cycle_body_def Let_def)
    moreover have "untouched G (for_guilds w cfg ?enabled ?st0)
       (emit [LogInfo (Complete (total_updates (for_guilds w cfg ?enabled ?st0)))]
          (for_guilds w cfg ?enabled ?st0))"
      by (simp add: untouched_emit)
    ultimately have "untouched G ?st0 (update_check w cfg db)"
      using u untouched_trans by metis
    then show ?thesis by (auto simp: untouched_def)
  qed
qed

lemma test_store_distinct:
  "distinct (map sub_id (subscriptions test_store))"
  "distinct (map g_id (guilds test_store))"
  by (simp_all add: test_store_def tv_sub_def movie_sub_def lounge_sub_def attic_sub_def
      checked_sub_def archive_row_def cinema_row_def lounge_row_def attic_row_def)

lemma test_store_rows:
  "get_subscriptions (subscriptions test_store) 20 = [lounge_sub]"
  "get_subscriptions (subscriptions test_store) 30 = [attic_sub]"
  by (simp_all add: get_subscriptions_def test_store_def tv_sub_def movie_sub_def lounge_sub_def
      attic_sub_def checked_sub_def)

text \<open>
  C9. In a store whose guild ids and subscription ids are unique (they are the primary
  keys), for every guild row whose \<open>auto_update_enabled\<close> is not true, a run of the
  cycle makes no event on behalf of that guild (its subscriptions are not loaded, none
  of them is fetched, evaluated, dispatched or written) and leaves its rows, with their
  \<open>last_checked\<close>, as they were.
\<close>

theorem disabled_guild_untouched:
  assumes "gd \<in> set (guilds db)" and "auto_update_enabled gd \<noteq> Some True"
    and "distinct (map g_id (guilds db))"
    and "distinct (map sub_id (subscriptions db))"
  shows "(\<forall>ev \<in> set (trace (update_check w cfg db)). \<not> touches (g_id gd) ev)
       \<and> get_subscriptions (table (update_check w cfg db)) (g_id gd)
           = get_subscriptions (subscriptions db) (g_id gd)"
proof (rule update_check_untouched[OF _ assms(4)])
  show "\<forall>x \<in> set (guilds db). auto_update_enabled x = Some True
          \<longrightarrow> g_id x \<noteq> g_id gd \<or> resolve_guild w (g_id x) = None"
  proof (intro ballI impI)
    fix x assume x: "x \<in> set (guilds db)" and en: "auto_update_enabled x = Some True"
    have "g_id x \<noteq> g_id gd"
    proof
      assume "g_id x = g_id gd"
      with x assms(1) assms(3) have "x = gd"
        by (meson distinct_map inj_onD)
      with en assms(2) show False by simp
    qed
    then show "g_id x \<noteq> g_id gd \<or> resolve_guild w (g_id x) = None" by simp
  qed
qed

text \<open>The theorem at the guild 20 of the store above, whose auto-update is off.\<close>

theorem disabled_guild_untouched_witness:
  "lounge_row \<in> set (guilds test_store)
   \<and> auto_update_enabled lounge_row = Some False
   \<and> filter (touches 20) (trace (update_check test_world default_config test_store)) = []
   \<and> get_subscriptions (table (update_check test_world default_config test_store)) 20
       = [lounge_sub]"
proof -
  have m: "lounge_row \<in> set (guilds test_store)" by (simp add: test_store_def)
  have off: "auto_update_enabled lounge_row = Some False" by (simp add: lounge_row_def)
  then have off': "auto_update_enabled lounge_row \<noteq> Some True" by simp
  have gid: "g_id lounge_row = 20" by (simp add: lounge_row_def)
  note th = disabled_guild_untouched[OF m off' test_store_distinct(2) test_store_distinct(1),
      of test_world default_config, unfolded gid]
  from th have "filter (touches 20) (trace (update_check test_world default_config test_store)) = []"
    by (simp only: filter_empty_conv) blast
  moreover from th have "get_subscriptions (table (update_check test_world default_config test_store)) 20
       = [lounge_sub]"
    by (simp only: test_store_rows)
  ultimately show ?thesis using m off by (intro conjI)
qed

text \<open>
  C10. In a store whose subscription ids are unique, for every guild row whose id the
  runtime does not resolve (an enabled one in particular), a run of the cycle makes no
  event on behalf of that guild (its subscriptions are not loaded, none of them is
  fetched, evaluated, dispatched or written) and leaves its rows, with their
  \<open>last_checked\<close>, as they were.
\<close>

theorem unresolved_guild_untouched:
  assumes "resolve_guild w (g_id gd) = None"
    and "distinct (map sub_id (subscriptions db))"
  shows "(\<forall>ev \<in> set (trace (update_check w cfg db)). \<not> touches (g_id gd) ev)
       \<and> get_subscriptions (table (update_check w cfg db)) (g_id gd)
           = get_subscriptions (subscriptions db) (g_id gd)"
proof (rule update_check_untouched[OF _ assms(2)])
  show "\<forall>x \<in> set (guilds db). auto_update_enabled x = Some True
          \<longrightarrow> g_id x \<noteq> g_id gd \<or> resolve_guild w (g_id x) = None"
    using assms(1) by metis
qed

text \<open>The theorem at the enabled guild 30 of the store above, which does not resolve.\<close>

theorem unresolved_guild_untouched_witness:
  "attic_row \<in> set (guilds test_store)
   \<and> auto_update_enabled attic_row = Some True
   \<and> resolve_guild test_world (g_id attic_row) = None
   \<and> filter (touches 30) (trace (update_check test_world default_config test_store)) = []
   \<and> get_subscriptions (table (update_check test_world default_config test_store)) 30
       = [attic_sub]"
proof -
  have m: "attic_row \<in> set (guilds test_store)" by (simp add: test_store_def)
  have on: "auto_update_enabled attic_row = Some True" by (simp add: attic_row_def)
  have gid: "g_id attic_row = 30" by (simp add: attic_row_def)
  have un: "resolve_guild test_world (g_id attic_row) = None"
    by (simp add: gid test_world_simps)
  note th = unresolved_guild_untouched[OF un test_store_distinct(1),
      of default_config, unfolded gid]
  from th have "filter (touches 30) (trace (update_check test_world default_config test_store)) = []"
    by (simp only: filter_empty_conv) blast
  moreover from th have "get_subscriptions (table (update_check test_world default_config test_store)) 30
       = [attic_sub]"
    by (simp only: test_store_rows)
  ultimately show ?thesis using m on un by (intro conjI)
qed

section \<open>Failure isolation in a cycle\<close>

lemma for_guilds_fetch:
  assumes gd: "gd \<in> set gs" and dg: "distinct (map g_id gs)"
    and ds: "distinct (map fst (row_keys (table st)))"
    and res: "resolve_guild w (g_id gd) = Some guild"
    and load: "load_subscriptions w (g_id gd) = None"
    and sub: "sub \<in> set (table st)" and own: "guild_id sub = g_id gd"
    and fresh: "\<not> checked_recently w cfg sub"
  shows "Fetch sub \<in> set (trace (for_guilds w cfg gs st))"
proof -
  from gd obtain pre post where split: "gs = pre @ gd # post"
    by (meson split_list)
  have others: "\<forall>x \<in> set pre. g_id x \<noteq> g_id gd \<or> resolve_guild w (g_id x) = None"
  proof
    fix x assume "x \<in> set pre"
    then have "g_id x \<in> g_id ` set pre" by (rule imageI)
    moreover have "g_id gd \<notin> g_id ` set pre" using dg unfolding split by simp
    ultimately have "g_id x \<noteq> g_id gd" by metis
    then show "g_id x \<noteq> g_id gd \<or> resolve_guild w (g_id x) = None" by simp
  qed
  let ?st = "for_guilds w cfg pre st"
  have u: "untouched (g_id gd) st ?st"
    using untouched_for_guilds[OF others ds] .
  then have rows: "get_subscriptions (table ?st) (g_id gd) = get_subscriptions (table st) (g_id gd)"
    by (simp add: untouched_def)
  let ?st1 = "emit [LoadSubscriptions (g_id gd)] ?st"
  let ?subs = "get_subscriptions (table ?st1) (g_id gd)"
  have t1: "table ?st1 = table ?st" by (simp add: emit_def)
  have mem: "sub \<in> set ?subs"
    using sub own unfolding t1 rows by (simp add: get_subscriptions_def)
  then have ne: "?subs \<noteq> []" by auto
  let ?st2 = "emit [LogInfo (Checking (length ?subs) (dg_name guild))] ?st1"
  have eq: "handle_guild w cfg gd ?st = for_subscriptions w cfg guild gd ?subs ?st2"
    using ne res load by (simp add: handle_guild_def check_guild_def Let_def)
  have "Fetch sub \<in> set (trace (for_subscriptions w cfg guild gd ?subs ?st2))"
    using mem fresh by (rule for_subscriptions_fetch)
  then have in_gd: "Fetch sub \<in> set (trace (handle_guild w cfg gd ?st))"
    by (simp only: eq)
  obtain evs where "trace (for_guilds w cfg post (handle_guild w cfg gd ?st))
      = trace (handle_guild w cfg gd ?st) @ evs"
    using for_guilds_trace by blast
  with in_gd have "Fetch sub \<in> set (trace (for_guilds w cfg post (handle_guild w cfg gd ?st)))"
    by simp
  then show ?thesis
    unfolding split by (simp add: for_guilds_append)
qed

lemma update_check_loads:
  assumes "select_guilds w = None" and "gd \<in> set (guilds db)"
    and "auto_update_enabled gd = Some True"
    and "resolve_guild w (g_id gd) = Some guild"
  shows "LoadSubscriptions (g_id gd) \<in> set (trace (update_check w cfg db))"
proof -
  let ?st0 = "\<lparr>table = subscriptions db, trace = [LogInfo Starting], total_updates = 0\<rparr>"
  let ?enabled = "filter (\<lambda>g. auto_update_enabled g = Some True) (guilds db)"
  have "gd \<in> set ?enabled" using assms(2,3) by simp
  then have "LoadSubscriptions (g_id gd) \<in> set (trace (for_guilds w cfg ?enabled ?st0))"
    using assms(4) by (rule for_guilds_load)
  then show ?thesis
    using assms(1) by (simp add: update_check_def cycle_body_def Let_def emit_def)
qed

lemma update_check_fetches:
  assumes "select_guilds w = None" and "gd \<in> set (guilds db)"
    and "auto_update_enabled gd = Some True"
    and "resolve_guild w (g_id gd) = Some guild"
    and "load_subscriptions w (g_id gd) = None"
    and "sub \<in> set (subscriptions db)" and "guild_id sub = g_id gd"
    and "\<not> checked_recently w cfg sub"
    and "distinct (map g_id (guilds db))" and "distinct (map sub_id (subscriptions db))"
  shows "Fetch sub \<in> set (trace (update_check w cfg db))"
proof -
  let ?st0 = "\<lparr>table = subscriptions db, trace = [LogInfo Starting], total_updates = 0\<rparr>"
  let ?enabled = "filter (\<lambda>g. auto_update_enabled g = Some True) (guilds db)"
  have m: "gd \<in> set ?enabled" using assms(2,3) by simp
  have dg: "distinct (map g_id ?enabled)"
    using assms(9) by (rule distinct_map_filter)
  have ds: "distinct (map fst (row_keys (table ?st0)))"
    using assms(10) by (simp add: row_keys_def comp_def)
  have s: "sub \<in> set (table ?st0)" using assms(6) by simp
  have "Fetch sub \<in> set (trace (for_guilds w cfg ?enabled ?st0))"
    using for_guilds_fetch[OF m dg ds assms(4) assms(5) s assms(7) assms(8)] .
  then show ?thesis
    using assms(1) by (simp add: update_check_def cycle_body_def Let_def emit_def)
qed

text \<open>
  C8. An exception raised in the body for one subscription is logged and the loop goes on
  with the rest of the guild's subscriptions; whatever raised before it, every
  subscription of the list that is not skipped as checked recently gets its fetch. An
  exception raised in the body for one guild is logged and the loop goes on with the
  rest of the guilds; every guild of the list that resolves gets its subscriptions
  loaded. An exception that leaves the body of the cycle is logged at the top and the run
  returns. For a whole run of the cycle whose guild query succeeds: every enabled guild
  row that resolves has its subscriptions loaded, whatever raised for the guilds before
  it; and, in a store whose guild ids and subscription ids are unique, every
  subscription of such a guild whose rows load, and that is not skipped as checked
  recently, is fetched, whatever raised for the guilds and subscriptions before it.
\<close>

theorem failure_isolation:
  "(check_subscription w cfg guild gd sub (for_subscriptions w cfg guild gd before st)
        = (Some es, sts)
      \<longrightarrow> for_subscriptions w cfg guild gd (before @ sub # rest) st
            = for_subscriptions w cfg guild gd rest
                (emit [LogError (SubscriptionError (sub_id sub) es)] sts))
   \<and> (\<forall>x \<in> set subs. \<not> checked_recently w cfg x
          \<longrightarrow> Fetch x \<in> set (trace (for_subscriptions w cfg guild gd subs st)))
   \<and> (check_guild w cfg g (for_guilds w cfg gbefore st) = (Some eg, stg)
      \<longrightarrow> for_guilds w cfg (gbefore @ g # grest) st
            = for_guilds w cfg grest (emit [LogError (GuildError (g_id g) eg)] stg))
   \<and> (\<forall>x \<in> set gs. resolve_guild w (g_id x) \<noteq> None
          \<longrightarrow> LoadSubscriptions (g_id x) \<in> set (trace (for_guilds w cfg gs st)))
   \<and> (cycle_body w cfg db = (Some ec, stc)
      \<longrightarrow> update_check w cfg db = emit [LogError (TaskError ec)] stc)
   \<and> (select_guilds w = None
      \<longrightarrow> (\<forall>row \<in> set (guilds db).
             auto_update_enabled row = Some True \<and> resolve_guild w (g_id row) \<noteq> None
               \<longrightarrow> LoadSubscriptions (g_id row) \<in> set (trace (update_check w cfg db))))
   \<and> (select_guilds w = None
        \<and> distinct (map g_id (guilds db)) \<and> distinct (map sub_id (subscriptions db))
      \<longrightarrow> (\<forall>row \<in> set (guilds db). \<forall>x \<in> set (subscriptions db).
             auto_update_enabled row = Some True \<and> resolve_guild w (g_id row) \<noteq> None
               \<and> load_subscriptions w (g_id row) = None
               \<and> guild_id x = g_id row \<and> \<not> checked_recently w cfg x
               \<longrightarrow> Fetch x \<in> set (trace (update_check w cfg db))))"
proof (intro conjI impI ballI)
  assume "check_subscription w cfg guild gd sub (for_subscriptions w cfg guild gd before st)
            = (Some es, sts)"
  then show "for_subscriptions w cfg guild gd (before @ sub # rest) st
      = for_subscriptions w cfg guild gd rest
          (emit [LogError (SubscriptionError (sub_id sub) es)] sts)"
    by (rule subscription_failure_continues)
next
  fix x assume "x \<in> set subs" and "\<not> checked_recently w cfg x"
  then show "Fetch x \<in> set (trace (for_subscriptions w cfg guild gd subs st))"
    by (rule for_subscriptions_fetch)
next
  assume "check_guild w cfg g (for_guilds w cfg gbefore st) = (Some eg, stg)"
  then show "for_guilds w cfg (gbefore @ g # grest) st
      = for_guilds w cfg grest (emit [LogError (GuildError (g_id g) eg)] stg)"
    by (rule guild_failure_continues)
next
  fix x assume x: "x \<in> set gs" and "resolve_guild w (g_id x) \<noteq> None"
  then obtain guild' where "resolve_guild w (g_id x) = Some guild'" by auto
  with x show "LoadSubscriptions (g_id x) \<in> set (trace (for_guilds w cfg gs st))"
    by (rule for_guilds_load)
next
  assume "cycle_body w cfg db = (Some ec, stc)"
  then show "update_check w cfg db = emit [LogError (TaskError ec)] stc"
    by (rule cycle_failure_caught)
next
  fix row
  assume sel: "select_guilds w = None" and row: "row \<in> set (guilds db)"
    and a: "auto_update_enabled row = Some True \<and> resolve_guild w (g_id row) \<noteq> None"
  then obtain guild' where "resolve_guild w (g_id row) = Some guild'" by auto
  with sel row a show "LoadSubscriptions (g_id row) \<in> set (trace (update_check w cfg db))"
    using update_check_loads by blast
next
  fix row x
  assume pre: "select_guilds w = None
      \<and> distinct (map g_id (guilds db)) \<and> distinct (map sub_id (subscriptions db))"
    and row: "row \<in> set (guilds db)" and x: "x \<in> set (subscriptions db)"
    and a: "auto_update_enabled row = Some True \<and> resolve_guild w (g_id row) \<noteq> None
              \<and> load_subscriptions w (g_id row) = None
              \<and> guild_id x = g_id row \<and> \<not> checked_recently w cfg x"
  from a obtain guild' where r: "resolve_guild w (g_id row) = Some guild'" by auto
  from pre have sel: "select_guilds w = None" and dg: "distinct (map g_id (guilds db))"
    and ds: "distinct (map sub_id (subscriptions db))" by simp_all
  from a have en: "auto_update_enabled row = Some True"
    and ld: "load_subscriptions w (g_id row) = None"
    and own: "guild_id x = g_id row" and fresh: "\<not> checked_recently w cfg x" by simp_all
  show "Fetch x \<in> set (trace (update_check w cfg db))"
    using sel row en r ld x own fresh dg ds by (rule update_check_fetches)
qed

text \<open>
  The theorem at a series whose fetch fails followed by a movie, at a guild whose
  subscriptions fail to load followed by another guild, at a cycle whose guild query
  fails, and at a whole run over the store above: the guild 40 fails to load and the
  series of the guild 10 fails to fetch, and the run still loads the guild 10 and fetches
  its movie.
\<close>

theorem failure_isolation_witness:
  "check_subscription test_world default_config cinema cinema_row tv_sub start_state
       = (Some RemoteError, emit [Fetch tv_sub] start_state)
   \<and> for_subscriptions test_world default_config cinema cinema_row [tv_sub, movie_sub] start_state
       = for_subscriptions test_world default_config cinema cinema_row [movie_sub]
           (emit [LogError (SubscriptionError (sub_id tv_sub) RemoteError)]
              (emit [Fetch tv_sub] start_state))
   \<and> Fetch movie_sub
       \<in> set (trace (for_subscriptions test_world default_config cinema cinema_row
                        [tv_sub, movie_sub] start_state))
   \<and> check_guild test_world default_config archive_row start_state
       = (Some StoreError, emit [LoadSubscriptions (g_id archive_row)] start_state)
   \<and> for_guilds test_world default_config [archive_row, cinema_row] start_state
       = for_guilds test_world default_config [cinema_row]
           (emit [LogError (GuildError (g_id archive_row) StoreError)]
              (emit [LoadSubscriptions (g_id archive_row)] start_state))
   \<and> LoadSubscriptions (g_id cinema_row)
       \<in> set (trace (for_guilds test_world default_config [archive_row, cinema_row] start_state))
   \<and> cycle_body failing_world default_config test_store = (Some StoreError, start_state)
   \<and> update_check failing_world default_config test_store
       = emit [LogError (TaskError StoreError)] start_state
   \<and> guilds test_store = [archive_row, cinema_row, lounge_row, attic_row]
   \<and> load_subscriptions test_world (g_id archive_row) = Some StoreError
   \<and> LoadSubscriptions (g_id cinema_row)
       \<in> set (trace (update_check test_world default_config test_store))
   \<and> get_subscriptions (subscriptions test_store) (g_id cinema_row)
       = [tv_sub, movie_sub, checked_sub]
   \<and> fetch_details test_world tv_sub = Inl RemoteError
   \<and> Fetch movie_sub \<in> set (trace (update_check test_world default_config test_store))"
proof -
  have f1: "fetch_details test_world tv_sub = Inl RemoteError"
    by (simp add: fetch_details_def tv_sub_def test_world_simps)
  have c1: "check_subscription test_world default_config cinema cinema_row tv_sub start_state
       = (Some RemoteError, emit [Fetch tv_sub] start_state)"
    by (simp add: check_subscription_def not_recent f1 Let_def)
  have c2: "check_guild test_world default_config archive_row start_state
       = (Some StoreError, emit [LoadSubscriptions (g_id archive_row)] start_state)"
    by (simp add: check_guild_def archive_row_def test_world_simps Let_def)
  have c3: "cycle_body failing_world default_config test_store = (Some StoreError, start_state)"
    by (simp add: cycle_body_def failing_world_def start_state_def Let_def)
  have r: "resolve_guild test_world (g_id cinema_row) \<noteq> None"
    by (simp add: cinema_row_def test_world_simps)
  have sel: "select_guilds test_world = None" by (simp only: test_world_simps)
  have gl: "guilds test_store = [archive_row, cinema_row, lounge_row, attic_row]"
    by (simp add: test_store_def)
  have la: "load_subscriptions test_world (g_id archive_row) = Some StoreError"
    by (simp add: archive_row_def test_world_simps)
  have lc: "load_subscriptions test_world (g_id cinema_row) = None"
    by (simp add: cinema_row_def test_world_simps)
  have en: "auto_update_enabled cinema_row = Some True" by (simp add: cinema_row_def)
  have gm: "cinema_row \<in> set (guilds test_store)" by (simp add: gl)
  have sm: "movie_sub \<in> set (subscriptions test_store)" by (simp add: test_store_def)
  have own: "guild_id movie_sub = g_id cinema_row" by (simp add: movie_sub_def cinema_row_def)
  have rows: "get_subscriptions (subscriptions test_store) (g_id cinema_row)
       = [tv_sub, movie_sub, checked_sub]"
    by (simp add: get_subscriptions_def test_store_def cinema_row_def tv_sub_def movie_sub_def
        lounge_sub_def attic_sub_def checked_sub_def)
  note th = failure_isolation[where w = test_world and cfg = default_config and guild = cinema
      and gd = cinema_row and sub = tv_sub and before = "[]" and st = start_state
      and es = RemoteError and sts = "emit [Fetch tv_sub] start_state" and rest = "[movie_sub]"
      and subs = "[tv_sub, movie_sub]" and g = archive_row and gbefore = "[]"
      and eg = StoreError and stg = "emit [LoadSubscriptions (g_id archive_row)] start_state"
      and grest = "[cinema_row]" and gs = "[archive_row, cinema_row]" and db = test_store]
  note th' = failure_isolation[where w = failing_world and cfg = default_config
      and db = test_store and ec = StoreError and stc = start_state]
  have p1: "for_subscriptions test_world default_config cinema cinema_row [tv_sub, movie_sub] start_state
       = for_subscriptions test_world default_config cinema cinema_row [movie_sub]
           (emit [LogError (SubscriptionError (sub_id tv_sub) RemoteError)]
              (emit [Fetch tv_sub] start_state))"
    using th[THEN conjunct1] c1 by (simp only: for_subscriptions.simps append_Nil simp_thms)
  have p2: "Fetch movie_sub
       \<in> set (trace (for_subscriptions test_world default_config cinema cinema_row
                        [tv_sub, movie_sub] start_state))"
    using th[THEN conjunct2, THEN conjunct1, THEN bspec, of movie_sub] not_recent(1)
    by (simp only: list.set insert_iff simp_thms)
  have p3: "for_guilds test_world default_config [archive_row, cinema_row] start_state
       = for_guilds test_world default_config [cinema_row]
           (emit [LogError (GuildError (g_id archive_row) StoreError)]
              (emit [LoadSubscriptions (g_id archive_row)] start_state))"
    using th[THEN conjunct2, THEN conjunct2, THEN conjunct1] c2
    by (simp only: for_guilds.simps append_Nil simp_thms)
  have p4: "LoadSubscriptions (g_id cinema_row)
       \<in> set (trace (for_guilds test_world default_config [archive_row, cinema_row] start_state))"
    using th[THEN conjunct2, THEN conjunct2, THEN conjunct2, THEN conjunct1, THEN bspec,
        of cinema_row] r
    by (simp only: list.set insert_iff simp_thms)
  have p5: "update_check failing_world default_config test_store
       = emit [LogError (TaskError StoreError)] start_state"
    using th'[THEN conjunct2, THEN conjunct2, THEN conjunct2, THEN conjunct2, THEN conjunct1] c3
    by (simp only: simp_thms)
  have p6: "LoadSubscriptions (g_id cinema_row)
       \<in> set (trace (update_check test_world default_config test_store))"
    using th[THEN conjunct2, THEN conjunct2, THEN conjunct2, THEN conjunct2, THEN conjunct2,
        THEN conjunct1, THEN mp, OF sel, THEN bspec, OF gm] en r
    by (simp only: simp_thms)
  have p7: "Fetch movie_sub \<in> set (trace (update_check test_world default_config test_store))"
    using th[THEN conjunct2, THEN conjunct2, THEN conjunct2, THEN conjunct2, THEN conjunct2,
        THEN conjunct2, THEN mp, OF conjI[OF sel conjI[OF test_store_distinct(2) test_store_distinct(1)]],
        THEN bspec, OF gm, THEN bspec, OF sm] en r lc own not_recent(1)
    by (simp only: simp_thms)
  from c1 p1 p2 c2 p3 p4 c3 p5 gl la p6 rows f1 p7 show ?thesis by (intro conjI)
qed

end
